theory Spec2Isabelle
  imports Complex_Main "HOL-Library.Char_ord" "HOL-Library.List_Lexorder"
begin

section \<open>Python values, errors and dictionaries\<close>

text \<open>
  The simulation computes with Python floats and unbounded integers. Floats are modelled
  by \<^typ>\<open>real\<close> (no NaN or infinity), integers by \<^typ>\<open>int\<close>. The arithmetic
  is exact, except in \<open>execute_trade\<close>, where every product, difference and sum is rounded
  to a double by \<open>dbl\<close> below, as the machine does. Every exception the code can raise is a
  value of \<open>py_error\<close>; an operation that mutates an object and may raise returns the mutated
  object next to the error, because in Python the mutation done before the raise stays.
\<close>

datatype py_error = KeyError | AttributeError | ValueError | ZeroDivisionError | IndexError

text \<open>\<open>int(x)\<close> on a float truncates toward zero.\<close>

definition py_int :: "real \<Rightarrow> int" where
  "py_int x = (if 0 \<le> x then \<lfloor>x\<rfloor> else \<lceil>x\<rceil>)"

text \<open>
  Rounding to the nearest IEEE 754 binary64 number, ties to even: the magnitude is scaled
  by powers of two into \<open>[2^52, 2^53)\<close> (the exponent not going below that of the
  subnormal numbers, \<open>-1074\<close>), rounded to an integer, and scaled back. (No overflow to
  infinity: the numbers of the simulation are far below \<open>2^1024\<close>.)
\<close>

definition round_even :: "real \<Rightarrow> int" where
  "round_even y =
     (let f = \<lfloor>y\<rfloor>; d = y - real_of_int f
      in if d < 1 / 2 then f else if 1 / 2 < d then f + 1 else if even f then f else f + 1)"

fun scale_to :: "nat \<Rightarrow> real \<Rightarrow> int \<Rightarrow> real \<times> int" where
  "scale_to 0 y e = (y, e)"
| "scale_to (Suc n) y e =
     (if y < 2 ^ 52 \<and> - 1074 < e then scale_to n (2 * y) (e - 1)
      else if 2 ^ 53 \<le> y then scale_to n (y / 2) (e + 1)
      else (y, e))"

definition dbl :: "real \<Rightarrow> real" where
  "dbl x =
     (if x = 0 then 0
      else (case scale_to 2200 \<bar>x\<bar> 0 of (y, e) \<Rightarrow> sgn x * real_of_int (round_even y) * 2 powi e))"

text \<open>Sequencing of computations that may raise.\<close>

definition then_r :: "py_error + 'a \<Rightarrow> ('a \<Rightarrow> py_error + 'b) \<Rightarrow> py_error + 'b" where
  "then_r r f = (case r of Inl e \<Rightarrow> Inl e | Inr x \<Rightarrow> f x)"

text \<open>
  A dict whose iteration order matters is an association list in insertion order:
  \<open>d[k] = v\<close> keeps the position of an existing key and appends a new one.
\<close>

fun dict_set :: "('k \<times> 'v) list \<Rightarrow> 'k \<Rightarrow> 'v \<Rightarrow> ('k \<times> 'v) list" where
  "dict_set [] k v = [(k, v)]"
| "dict_set ((k', v') # d) k v = (if k' = k then (k, v) # d else (k', v') # dict_set d k v)"

definition dict_get :: "('k \<times> 'v) list \<Rightarrow> 'k \<Rightarrow> py_error + 'v" where
  "dict_get d k = (case map_of d k of None \<Rightarrow> Inl KeyError | Some v \<Rightarrow> Inr v)"

text \<open>\<open>d[k]\<close> on a dict whose order is never observed (a map).\<close>

definition dict_item :: "('k \<rightharpoonup> 'v) \<Rightarrow> 'k \<Rightarrow> py_error + 'v" where
  "dict_item d k = (case d k of None \<Rightarrow> Inl KeyError | Some v \<Rightarrow> Inr v)"

text \<open>In-place mutation of the object stored under a key.\<close>

definition dict_modify :: "('k \<times> 'v) list \<Rightarrow> 'k \<Rightarrow> ('v \<Rightarrow> 'v) \<Rightarrow> ('k \<times> 'v) list" where
  "dict_modify d k f = map (\<lambda>(k', v). if k' = k then (k', f v) else (k', v)) d"

text \<open>The decimal digits of \<open>i\<close> in an f-string.\<close>

definition digit_char :: "nat \<Rightarrow> char" where
  "digit_char d = ''0123456789'' ! d"

function str_nat :: "nat \<Rightarrow> string" where
  "str_nat n = (if n < 10 then [digit_char n] else str_nat (n div 10) @ [digit_char (n mod 10)])"
  by pat_completeness auto
termination
  by (relation "measure id") auto

declare str_nat.simps [simp del]

section \<open>The process-wide sources: numpy's generator, the \<open>random\<close> module, the clock\<close>

text \<open>
  The code draws from two global generators, \<open>np.random\<close> (seeded by the constructor of the
  simulation) and the standard library's \<open>random\<close> (never seeded by this code), and reads the
  wall clock with \<open>datetime.now()\<close>. The generators' algorithms are not part of the
  repository: each source is a tape of outcomes with a read position, every call consumes
  the next cell. A cell read by \<open>random()\<close>, \<open>uniform\<close>, \<open>randint\<close>, \<open>choice\<close> or
  \<open>sample\<close> is the unit draw in \<open>[0,1)\<close> behind the call; a cell read by \<open>randn\<close> is the
  normal deviate itself.
\<close>

record env =
  np_tape :: "nat \<Rightarrow> real"
  np_pos :: nat
  py_tape :: "nat \<Rightarrow> real"
  py_pos :: nat
  clock :: "nat \<Rightarrow> real"
  clock_pos :: nat

definition np_random_random :: "env \<Rightarrow> real \<times> env" where
  "np_random_random s = (np_tape s (np_pos s), s\<lparr>np_pos := Suc (np_pos s)\<rparr>)"

definition py_random_random :: "env \<Rightarrow> real \<times> env" where
  "py_random_random s = (py_tape s (py_pos s), s\<lparr>py_pos := Suc (py_pos s)\<rparr>)"

definition now :: "env \<Rightarrow> real \<times> env" where
  "now s = (clock s (clock_pos s), s\<lparr>clock_pos := Suc (clock_pos s)\<rparr>)"

text \<open>The integer in \<open>[0, n)\<close> a unit draw selects.\<close>

definition pick :: "real \<Rightarrow> int \<Rightarrow> int" where
  "pick u n = \<lfloor>u * real_of_int n\<rfloor> mod n"

text \<open>\<open>np.random.seed(seed)\<close>: the generator \<open>gen\<close> maps a seed to its stream.\<close>

definition np_random_seed :: "(int \<Rightarrow> nat \<Rightarrow> real) \<Rightarrow> int \<Rightarrow> env \<Rightarrow> (py_error + unit) \<times> env" where
  "np_random_seed gen seed s =
     (if seed < 0 \<or> 2 ^ 32 \<le> seed then (Inl ValueError, s)
      else (Inr (), s\<lparr>np_tape := gen seed, np_pos := 0\<rparr>))"

definition np_random_uniform :: "real \<Rightarrow> real \<Rightarrow> env \<Rightarrow> real \<times> env" where
  "np_random_uniform low high s =
     (case np_random_random s of (u, s') \<Rightarrow> (low + (high - low) * u, s'))"

text \<open>\<open>np.random.randint(low, high)\<close>: an integer in \<open>[low, high)\<close>.\<close>

definition np_random_randint :: "int \<Rightarrow> int \<Rightarrow> env \<Rightarrow> (py_error + int) \<times> env" where
  "np_random_randint low high s =
     (if high \<le> low then (Inl ValueError, s)
      else (case np_random_random s of (u, s') \<Rightarrow> (Inr (low + pick u (high - low)), s')))"

text \<open>\<open>np.random.choice(a)\<close>: one element.\<close>

definition np_random_choice :: "'a list \<Rightarrow> env \<Rightarrow> (py_error + 'a) \<times> env" where
  "np_random_choice a s =
     (if a = [] then (Inl ValueError, s)
      else (case np_random_random s of (u, s') \<Rightarrow> (Inr (a ! nat (pick u (int (length a)))), s')))"

text \<open>Drawing \<open>k\<close> elements without replacement, one unit draw each.\<close>

fun draw_distinct :: "(env \<Rightarrow> real \<times> env) \<Rightarrow> 'a list \<Rightarrow> nat \<Rightarrow> env \<Rightarrow> 'a list \<times> env" where
  "draw_distinct rnd a 0 s = ([], s)"
| "draw_distinct rnd a (Suc k) s =
     (if a = [] then ([], s)
      else (case rnd s of (u, s') \<Rightarrow>
        (let i = nat (pick u (int (length a)))
         in (case draw_distinct rnd (take i a @ drop (Suc i) a) k s' of
               (rest, s'') \<Rightarrow> (a ! i # rest, s'')))))"

text \<open>\<open>np.random.choice(a, size=size, replace=False)\<close>.\<close>

definition np_random_choice_distinct :: "'a list \<Rightarrow> int \<Rightarrow> env \<Rightarrow> (py_error + 'a list) \<times> env" where
  "np_random_choice_distinct a sz s =
     (if sz < 0 \<or> int (length a) < sz \<or> (a = [] \<and> 0 < sz) then (Inl ValueError, s)
      else (case draw_distinct np_random_random a (nat sz) s of (xs, s') \<Rightarrow> (Inr xs, s')))"

text \<open>\<open>np.random.randn(n)\<close>.\<close>

fun np_random_randn :: "nat \<Rightarrow> env \<Rightarrow> real list \<times> env" where
  "np_random_randn 0 s = ([], s)"
| "np_random_randn (Suc n) s =
     (case np_random_random s of (z, s') \<Rightarrow>
        (case np_random_randn n s' of (zs, s'') \<Rightarrow> (z # zs, s'')))"

text \<open>\<open>random.randint(a, b)\<close> of the standard library: an integer in \<open>[a, b]\<close>.\<close>

definition random_randint :: "int \<Rightarrow> int \<Rightarrow> env \<Rightarrow> (py_error + int) \<times> env" where
  "random_randint a b s =
     (if b < a then (Inl ValueError, s)
      else (case py_random_random s of (u, s') \<Rightarrow> (Inr (a + pick u (b - a + 1)), s')))"

text \<open>\<open>random.sample(population, k)\<close>.\<close>

definition random_sample :: "'a list \<Rightarrow> int \<Rightarrow> env \<Rightarrow> (py_error + 'a list) \<times> env" where
  "random_sample population k s =
     (if k < 0 \<or> int (length population) < k then (Inl ValueError, s)
      else (case draw_distinct py_random_random population (nat k) s of (xs, s') \<Rightarrow> (Inr xs, s')))"

section \<open>Resource pool and region state (app/core/resources.py)\<close>

record ResourcePool =
  water :: real
  food :: real
  energy :: real
  land :: real
  max_water :: real
  max_food :: real
  max_energy :: real
  max_land :: real

definition post_init :: "ResourcePool \<Rightarrow> ResourcePool" where
  "post_init p =
     (let p1 = p\<lparr>water := min (water p) (max_water p)\<rparr>;
          p2 = p1\<lparr>food := min (food p1) (max_food p1)\<rparr>;
          p3 = p2\<lparr>energy := min (energy p2) (max_energy p2)\<rparr>
      in p3\<lparr>land := min (land p3) (max_land p3)\<rparr>)"

text \<open>The dataclass constructor: the generated \<open>__init__\<close> stores the eight fields and calls
  \<open>__post_init__\<close>.\<close>

definition ResourcePool_init ::
  "real \<Rightarrow> real \<Rightarrow> real \<Rightarrow> real \<Rightarrow> real \<Rightarrow> real \<Rightarrow> real \<Rightarrow> real \<Rightarrow> ResourcePool" where
  "ResourcePool_init w f e l mw mf me ml =
     post_init \<lparr>water = w, food = f, energy = e, land = l,
                max_water = mw, max_food = mf, max_energy = me, max_land = ml\<rparr>"

text \<open>The constructor called with the four stocks only: the caps take their defaults.\<close>

definition ResourcePool_new :: "real \<Rightarrow> real \<Rightarrow> real \<Rightarrow> real \<Rightarrow> ResourcePool" where
  "ResourcePool_new w f e l = ResourcePool_init w f e l 2000 2000 2000 1000"

definition get_as_dict :: "ResourcePool \<Rightarrow> (string \<rightharpoonup> real)" where
  "get_as_dict p = [''water'' \<mapsto> water p, ''food'' \<mapsto> food p, ''energy'' \<mapsto> energy p, ''land'' \<mapsto> land p]"

definition deplete :: "ResourcePool \<Rightarrow> real \<Rightarrow> real \<Rightarrow> real \<Rightarrow> real \<Rightarrow> ResourcePool" where
  "deplete p w f e l =
     p\<lparr>water := max 0 (water p - w), food := max 0 (food p - f),
       energy := max 0 (energy p - e), land := max 0 (land p - l)\<rparr>"

definition replenish :: "ResourcePool \<Rightarrow> real \<Rightarrow> real \<Rightarrow> real \<Rightarrow> real \<Rightarrow> ResourcePool" where
  "replenish p w f e l =
     p\<lparr>water := min (max_water p) (water p + w), food := min (max_food p) (food p + f),
       energy := min (max_energy p) (energy p + e), land := min (max_land p) (land p + l)\<rparr>"

definition get_total_value :: "ResourcePool \<Rightarrow> real" where
  "get_total_value p = water p + food p + energy p + land p * 10"

definition is_critical :: "ResourcePool \<Rightarrow> bool" where
  "is_critical p = (water p < 100 \<or> food p < 100 \<or> energy p < 100)"

text \<open>The invariant of the ledger: every stock between 0 and its cap.\<close>

definition in_range :: "ResourcePool \<Rightarrow> bool" where
  "in_range p =
     (0 \<le> water p \<and> water p \<le> max_water p \<and> 0 \<le> food p \<and> food p \<le> max_food p \<and>
      0 \<le> energy p \<and> energy p \<le> max_energy p \<and> 0 \<le> land p \<and> land p \<le> max_land p)"

record RegionState =
  region_id :: string
  name :: string
  resources :: ResourcePool
  population :: int
  development_level :: real
  growth_rate :: real
  stability :: real
  trade_partners :: "(string \<times> real) list"
  temperature :: real
  rainfall :: real
  disaster_risk :: real

text \<open>The dict \<open>get_state_dict\<close> builds: one entry per field, the ledger as its own dict.\<close>

record state_dict =
  d_region_id :: string
  d_name :: string
  d_resources :: "string \<rightharpoonup> real"
  d_population :: int
  d_development_level :: real
  d_growth_rate :: real
  d_stability :: real
  d_trade_partners :: "(string \<times> real) list"
  d_temperature :: real
  d_rainfall :: real
  d_disaster_risk :: real

definition get_state_dict :: "RegionState \<Rightarrow> state_dict" where
  "get_state_dict r =
     \<lparr>d_region_id = region_id r, d_name = name r, d_resources = get_as_dict (resources r),
      d_population = population r, d_development_level = development_level r,
      d_growth_rate = growth_rate r, d_stability = stability r,
      d_trade_partners = trade_partners r, d_temperature = temperature r,
      d_rainfall = rainfall r, d_disaster_risk = disaster_risk r\<rparr>"

text \<open>
  \<open>RegionState\<close> defines \<open>get_state_dict\<close> only. \<open>is_critical\<close> is a method of
  \<open>ResourcePool\<close>, so the attribute lookup \<open>region.is_critical\<close> on a \<open>RegionState\<close>
  raises \<open>AttributeError\<close>.
\<close>

definition RegionState_is_critical :: "RegionState \<Rightarrow> py_error + bool" where
  "RegionState_is_critical r = Inl AttributeError"

section \<open>Climatic events (app/simulation/engine.py)\<close>

text \<open>
  The catalog \<open>EVENT_TYPES\<close>: per event kind, the numeric items in the order the dict
  lists them, then the description. The \<open>description\<close> item is the last item of every
  entry and carries a string.
\<close>

definition EVENT_TYPES :: "(string \<times> (string \<times> real) list \<times> string) list" where
  "EVENT_TYPES =
    [(''drought'', [(''water'', -500), (''food'', -300)], ''Severe Drought''),
     (''flood'', [(''water'', 200), (''food'', -200), (''land'', -100)], ''Flooding''),
     (''heatwave'', [(''energy'', -200), (''food'', -150)], ''Heatwave''),
     (''coldsnap'', [(''energy'', -400), (''food'', -100)], ''Cold Snap''),
     (''harvest'', [(''food'', 300)], ''Bountiful Harvest''),
     (''plague'', [(''population_loss'', 1 / 10)], ''Plague Outbreak'')]"

record ClimaticEvent =
  event_type :: string
  affected_regions :: "string list"
  severity :: real
  timestamp :: real

definition ClimaticEvent_init :: "string \<Rightarrow> string list \<Rightarrow> real \<Rightarrow> env \<Rightarrow> ClimaticEvent \<times> env" where
  "ClimaticEvent_init et affected sev s =
     (case now s of (t, s') \<Rightarrow>
        (\<lparr>event_type = et, affected_regions = affected, severity = sev, timestamp = t\<rparr>, s'))"

text \<open>
  \<open>hasattr\<close>/\<open>getattr\<close>/\<open>setattr\<close> on a \<open>ResourcePool\<close>, for the data attributes. (The
  methods are attributes too; no key of the catalog names one.)
\<close>

definition pool_getattr :: "ResourcePool \<Rightarrow> string \<Rightarrow> real option" where
  "pool_getattr p a =
     (if a = ''water'' then Some (water p) else if a = ''food'' then Some (food p)
      else if a = ''energy'' then Some (energy p) else if a = ''land'' then Some (land p)
      else if a = ''max_water'' then Some (max_water p) else if a = ''max_food'' then Some (max_food p)
      else if a = ''max_energy'' then Some (max_energy p) else if a = ''max_land'' then Some (max_land p)
      else None)"

definition pool_setattr :: "ResourcePool \<Rightarrow> string \<Rightarrow> real \<Rightarrow> ResourcePool" where
  "pool_setattr p a v =
     (if a = ''water'' then p\<lparr>water := v\<rparr> else if a = ''food'' then p\<lparr>food := v\<rparr>
      else if a = ''energy'' then p\<lparr>energy := v\<rparr> else if a = ''land'' then p\<lparr>land := v\<rparr>
      else if a = ''max_water'' then p\<lparr>max_water := v\<rparr> else if a = ''max_food'' then p\<lparr>max_food := v\<rparr>
      else if a = ''max_energy'' then p\<lparr>max_energy := v\<rparr> else if a = ''max_land'' then p\<lparr>max_land := v\<rparr>
      else p)"

text \<open>The loop of \<open>apply\<close> over the numeric items of the catalog entry.\<close>

fun apply_items ::
  "real \<Rightarrow> (string \<times> real) list \<Rightarrow> RegionState \<Rightarrow> (string \<rightharpoonup> real) \<Rightarrow> RegionState \<times> (string \<rightharpoonup> real)" where
  "apply_items sev [] r effects = (r, effects)"
| "apply_items sev ((resource, change) # items) r effects =
     (if resource = ''population_loss''
      then apply_items sev items
             (r\<lparr>population := py_int (real_of_int (population r) * (1 - change * sev))\<rparr>) effects
      else (case pool_getattr (resources r) resource of
              Some current \<Rightarrow>
                apply_items sev items
                  (r\<lparr>resources := pool_setattr (resources r) resource (max 0 (current + change * sev))\<rparr>)
                  (effects(resource \<mapsto> change * sev))
            | None \<Rightarrow> apply_items sev items r effects))"

text \<open>
  \<open>ClimaticEvent.apply\<close>: the region after the call and the effects dict returned. An
  unknown event kind has the empty entry. The \<open>description\<close> item is neither
  \<open>population_loss\<close> nor an attribute of the pool, so the loop passes over it.
\<close>

definition apply_event :: "ClimaticEvent \<Rightarrow> RegionState \<Rightarrow> RegionState \<times> (string \<rightharpoonup> real)" where
  "apply_event ev r =
     (if region_id r \<notin> set (affected_regions ev) then (r, Map.empty)
      else (let event_data = (case map_of EVENT_TYPES (event_type ev) of
                                None \<Rightarrow> [] | Some (items, description) \<Rightarrow> items)
            in apply_items (severity ev) event_data r Map.empty))"

section \<open>The learner and the regional agent (app/agents/rl_agent.py)\<close>

type_synonym transition = "real list \<times> int \<times> real \<times> real list \<times> bool"

record DQNAgent =
  state_size :: int
  action_size :: int
  learning_rate :: real
  gamma :: real
  epsilon :: real
  epsilon_decay :: real
  epsilon_min :: real
  q_values :: "real list"
  memory :: "transition list"
  loss_history :: "real list"

definition DQNAgent_init :: "int \<Rightarrow> int \<Rightarrow> real \<Rightarrow> env \<Rightarrow> (py_error + DQNAgent) \<times> env" where
  "DQNAgent_init ssize asize lr s =
     (if asize < 0 then (Inl ValueError, s)
      else (case np_random_randn (nat asize) s of (zs, s') \<Rightarrow>
        (Inr \<lparr>state_size = ssize, action_size = asize, learning_rate = lr, gamma = 95 / 100,
              epsilon = 1, epsilon_decay = 995 / 1000, epsilon_min = 1 / 100,
              q_values = map (\<lambda>z. z * (1 / 100)) zs, memory = [], loss_history = []\<rparr>, s')))"

text \<open>\<open>deque(maxlen=2000).append\<close>: a full buffer drops its oldest entry.\<close>

definition remember :: "DQNAgent \<Rightarrow> transition \<Rightarrow> DQNAgent" where
  "remember a t =
     a\<lparr>memory := (if 2000 \<le> length (memory a) then tl (memory a) else memory a) @ [t]\<rparr>"

text \<open>\<open>np.argmax\<close> (the first index of the maximum) and \<open>np.max\<close>; both raise on an empty array.\<close>

fun argmax_from :: "real list \<Rightarrow> nat \<Rightarrow> real \<Rightarrow> nat \<Rightarrow> nat" where
  "argmax_from [] i best besti = besti"
| "argmax_from (x # xs) i best besti =
     (if best < x then argmax_from xs (Suc i) x i else argmax_from xs (Suc i) best besti)"

definition np_argmax :: "real list \<Rightarrow> py_error + int" where
  "np_argmax xs = (case xs of [] \<Rightarrow> Inl ValueError | x # rest \<Rightarrow> Inr (int (argmax_from rest 1 x 0)))"

definition np_max :: "real list \<Rightarrow> py_error + real" where
  "np_max xs = (case xs of [] \<Rightarrow> Inl ValueError | x # rest \<Rightarrow> Inr (fold max rest x))"

text \<open>\<open>self.q_values + np.sum(state) * 0.1\<close>.\<close>

definition q_estimates :: "DQNAgent \<Rightarrow> real list \<Rightarrow> real list" where
  "q_estimates a state = map (\<lambda>q. q + sum_list state * (1 / 10)) (q_values a)"

definition act :: "DQNAgent \<Rightarrow> real list \<Rightarrow> bool \<Rightarrow> env \<Rightarrow> (py_error + int) \<times> env" where
  "act a state training s =
     (if training
      then (case np_random_random s of (u, s') \<Rightarrow>
              if u < epsilon a then random_randint 0 (action_size a - 1) s'
              else (np_argmax (q_estimates a state), s'))
      else (np_argmax (q_estimates a state), s))"

text \<open>An index into a numpy array: negative indices count from the end.\<close>

definition array_index :: "'a list \<Rightarrow> int \<Rightarrow> py_error + nat" where
  "array_index xs i =
     (let n = int (length xs); j = (if i < 0 then n + i else i)
      in if 0 \<le> j \<and> j < n then Inr (nat j) else Inl IndexError)"

text \<open>The loop of \<open>replay\<close> over the batch: the error raised, if any, the agent with the
  values updated so far, and the accumulated loss.\<close>

fun replay_batch :: "DQNAgent \<Rightarrow> transition list \<Rightarrow> real \<Rightarrow> py_error option \<times> DQNAgent \<times> real" where
  "replay_batch a [] total_loss = (None, a, total_loss)"
| "replay_batch a ((state, action, reward, next_state, done) # batch) total_loss =
     (case (if done then Inr reward
            else then_r (np_max (q_estimates a next_state)) (\<lambda>next_q. Inr (reward + gamma a * next_q))) of
        Inl e \<Rightarrow> (Some e, a, total_loss)
      | Inr target \<Rightarrow>
          (case array_index (q_values a) action of
             Inl e \<Rightarrow> (Some e, a, total_loss)
           | Inr i \<Rightarrow>
               (let old_q = q_values a ! i;
                    a' = a\<lparr>q_values := (q_values a)[i := old_q + learning_rate a * (target - old_q)]\<rparr>;
                    loss = \<bar>target - old_q\<bar>
                in replay_batch a' batch (total_loss + loss))))"

definition replay :: "DQNAgent \<Rightarrow> int \<Rightarrow> env \<Rightarrow> (py_error + real) \<times> DQNAgent \<times> env" where
  "replay a batch_size s =
     (if int (length (memory a)) < batch_size then (Inr 0, a, s)
      else (case random_sample (memory a) batch_size s of
              (Inl e, s') \<Rightarrow> (Inl e, a, s')
            | (Inr batch, s') \<Rightarrow>
                (case replay_batch a batch 0 of
                   (Some e, a1, total_loss) \<Rightarrow> (Inl e, a1, s')
                 | (None, a1, total_loss) \<Rightarrow>
                     if batch_size = 0 then (Inl ZeroDivisionError, a1, s')
                     else (let avg_loss = total_loss / real_of_int batch_size;
                               a2 = a1\<lparr>loss_history := loss_history a1 @ [avg_loss]\<rparr>;
                               a3 = (if epsilon_min a2 < epsilon a2
                                     then a2\<lparr>epsilon := epsilon a2 * epsilon_decay a2\<rparr> else a2)
                           in (Inr avg_loss, a3, s')))))"

text \<open>The action catalog \<open>ACTIONS\<close>: index, name, the other items in order
  (\<open>'passive': True\<close> is the number 1).\<close>

definition ACTIONS :: "(int \<times> string \<times> (string \<times> real) list) list" where
  "ACTIONS =
    [(0, ''Invest in Food'', [(''water'', -50), (''food'', 100), (''energy'', -20)]),
     (1, ''Invest in Energy'', [(''water'', -30), (''food'', -20), (''energy'', 150)]),
     (2, ''Invest in Water'', [(''water'', 200), (''food'', -50), (''energy'', -50)]),
     (3, ''Increase Production'', [(''pop_growth'', 5 / 100), (''energy'', -100)]),
     (4, ''Trade (Aggressive)'', [(''trade_intensity'', 8 / 10), (''energy'', -30)]),
     (5, ''Trade (Moderate)'', [(''trade_intensity'', 5 / 10), (''energy'', -15)]),
     (6, ''Conserve Resources'', [(''conservation'', 3 / 10), (''growth'', - (2 / 100))]),
     (7, ''Invest in Development'', [(''dev_increase'', 5 / 100), (''energy'', -80)]),
     (8, ''Do Nothing'', [(''passive'', 1)])]"

record RegionalAgent =
  agent_region_id :: string
  dqn :: DQNAgent
  action_history :: "int list"
  reward_history :: "real list"
  episode_steps :: int

definition RegionalAgent_init :: "string \<Rightarrow> DQNAgent \<Rightarrow> RegionalAgent" where
  "RegionalAgent_init rid d =
     \<lparr>agent_region_id = rid, dqn = d, action_history = [], reward_history = [], episode_steps = 0\<rparr>"

text \<open>\<open>np.clip(x, 0, 1)\<close> on one component.\<close>

definition clip01 :: "real \<Rightarrow> real" where
  "clip01 x = min 1 (max 0 x)"

definition get_state_vector :: "state_dict \<Rightarrow> py_error + real list" where
  "get_state_vector d =
     then_r (dict_item (d_resources d) ''water'') (\<lambda>w.
     then_r (dict_item (d_resources d) ''food'') (\<lambda>f.
     then_r (dict_item (d_resources d) ''energy'') (\<lambda>e.
     then_r (dict_item (d_resources d) ''land'') (\<lambda>l.
       Inr (map clip01
         [w / 2000, f / 2000, e / 2000, l / 1000,
          real_of_int (d_population d) / 1000,
          d_development_level d, d_stability d,
          d_temperature d / 50, d_rainfall d / 200, d_disaster_risk d,
          real (length (d_trade_partners d)) / 10,
          d_growth_rate d * 100])))))"

definition decide_action ::
  "RegionalAgent \<Rightarrow> state_dict \<Rightarrow> bool \<Rightarrow> env \<Rightarrow> (py_error + int \<times> string) \<times> env" where
  "decide_action ag d training s =
     (case get_state_vector d of
        Inl e \<Rightarrow> (Inl e, s)
      | Inr state_vec \<Rightarrow>
          (case act (dqn ag) state_vec training s of
             (Inl e, s') \<Rightarrow> (Inl e, s')
           | (Inr action_idx, s') \<Rightarrow>
               (then_r (dict_get ACTIONS action_idx) (\<lambda>(action_name, items). Inr (action_idx, action_name)), s')))"

definition calculate_reward ::
  "(string \<rightharpoonup> real) \<Rightarrow> (string \<rightharpoonup> real) \<Rightarrow> real \<Rightarrow> int \<Rightarrow> py_error + real" where
  "calculate_reward prev_resources curr_resources stab pop =
     then_r (dict_item curr_resources ''water'') (\<lambda>w.
     then_r (dict_item curr_resources ''food'') (\<lambda>f.
     then_r (dict_item curr_resources ''energy'') (\<lambda>e.
       (let resource_health = (w / 2000 + f / 2000 + e / 2000) / 3;
            stability_reward = stab * 2;
            pop_reward = min (real_of_int pop / 500) 1 * (5 / 10);
            starvation_penalty = (if f < 100 then -5 else 0);
            starvation_penalty = (if e < 100 then starvation_penalty - 3 else starvation_penalty);
            total_reward = resource_health * 3 + stability_reward + pop_reward + starvation_penalty
        in Inr (min 10 (max (-10) total_reward))))))"

definition learn ::
  "RegionalAgent \<Rightarrow> real list \<Rightarrow> int \<Rightarrow> real \<Rightarrow> real list \<Rightarrow> bool \<Rightarrow> env
     \<Rightarrow> (py_error + real) \<times> RegionalAgent \<times> env" where
  "learn ag state action reward next_state done s =
     (let ag1 = ag\<lparr>dqn := remember (dqn ag) (state, action, reward, next_state, done)\<rparr>;
          ag2 = ag1\<lparr>reward_history := reward_history ag1 @ [reward]\<rparr>;
          ag3 = ag2\<lparr>action_history := action_history ag2 @ [action]\<rparr>
      in (case replay (dqn ag3) 32 s of (res, d', s') \<Rightarrow> (res, ag3\<lparr>dqn := d'\<rparr>, s')))"

section \<open>The trade network (app/simulation/engine.py)\<close>

text \<open>
  The directed graph is its adjacency structure: per node, in insertion order, the
  neighbours with the weight of the edge.
\<close>

record trade_event =
  te_region_a :: string
  te_region_b :: string
  te_strength :: real
  te_timestamp :: real

record TradeNetwork =
  trade_graph :: "(string \<times> (string \<times> real) list) list"
  trade_history :: "trade_event list"

definition TradeNetwork_init :: TradeNetwork where
  "TradeNetwork_init = \<lparr>trade_graph = [], trade_history = []\<rparr>"

definition add_node :: "(string \<times> (string \<times> real) list) list \<Rightarrow> string \<Rightarrow> (string \<times> (string \<times> real) list) list" where
  "add_node g n = (if n \<in> set (map fst g) then g else g @ [(n, [])])"

definition add_edge ::
  "(string \<times> (string \<times> real) list) list \<Rightarrow> string \<Rightarrow> string \<Rightarrow> real \<Rightarrow> (string \<times> (string \<times> real) list) list" where
  "add_edge g u v w = dict_modify (add_node (add_node g u) v) u (\<lambda>adj. dict_set adj v w)"

definition add_region :: "TradeNetwork \<Rightarrow> string \<Rightarrow> TradeNetwork" where
  "add_region tn rid = tn\<lparr>trade_graph := add_node (trade_graph tn) rid\<rparr>"

definition establish_trade :: "TradeNetwork \<Rightarrow> string \<Rightarrow> string \<Rightarrow> real \<Rightarrow> TradeNetwork" where
  "establish_trade tn region_a region_b strength =
     tn\<lparr>trade_graph := add_edge (add_edge (trade_graph tn) region_a region_b strength)
                           region_b region_a strength\<rparr>"

definition get_trading_partners :: "TradeNetwork \<Rightarrow> string \<Rightarrow> (string \<times> real) list" where
  "get_trading_partners tn rid =
     (case map_of (trade_graph tn) rid of None \<Rightarrow> [] | Some adj \<Rightarrow> adj)"

text \<open>
  \<open>execute_trade\<close> mutates the two region objects it is given. The objects live in the
  store of regions (the dict \<open>regions\<close> of the simulation) and are referred to by their
  keys \<open>a\<close> and \<open>b\<close>, so that the same object passed twice is one entry mutated four
  times. The lookups \<open>self.regions[...]\<close> the caller does are the first two cases. Each
  product, difference and sum is a double; \<open>0.8\<close> and \<open>0.9\<close> are the doubles nearest to
  them.
\<close>

definition execute_trade ::
  "TradeNetwork \<Rightarrow> (string \<times> RegionState) list \<Rightarrow> string \<Rightarrow> string \<Rightarrow> real \<Rightarrow> env
     \<Rightarrow> py_error option \<times> TradeNetwork \<times> (string \<times> RegionState) list \<times> env" where
  "execute_trade tn regs a b trade_strength s =
     (case dict_get regs a of
        Inl e \<Rightarrow> (Some e, tn, regs, s)
      | Inr region_a_state \<Rightarrow>
     (case dict_get regs b of
        Inl e \<Rightarrow> (Some e, tn, regs, s)
      | Inr region_b_state \<Rightarrow>
     (let trade_amount = dbl (trade_strength * 50);
          regs1 = dict_modify regs a
            (\<lambda>r. r\<lparr>resources := (resources r)\<lparr>food := dbl (food (resources r) - trade_amount)\<rparr>\<rparr>);
          regs2 = dict_modify regs1 b
            (\<lambda>r. r\<lparr>resources := (resources r)
                    \<lparr>energy := dbl (energy (resources r) - dbl (trade_amount * dbl (8 / 10)))\<rparr>\<rparr>);
          regs3 = dict_modify regs2 b
            (\<lambda>r. r\<lparr>resources := (resources r)
                    \<lparr>energy := dbl (energy (resources r) + dbl (trade_amount * dbl (9 / 10)))\<rparr>\<rparr>);
          regs4 = dict_modify regs3 a
            (\<lambda>r. r\<lparr>resources := (resources r)
                    \<lparr>food := dbl (food (resources r) + dbl (trade_amount * dbl (8 / 10)))\<rparr>\<rparr>)
      in (case now s of (t, s') \<Rightarrow>
            (None,
             tn\<lparr>trade_history := trade_history tn @
                  [\<lparr>te_region_a = region_id region_a_state, te_region_b = region_id region_b_state,
                    te_strength = trade_strength, te_timestamp = t\<rparr>]\<rparr>,
             regs4, s')))))"

text \<open>What the two updates of the food of \<open>a\<close> and the two updates of the energy of
  \<open>b\<close> compute from the stock before the trade.\<close>

definition trade_food :: "real \<Rightarrow> real \<Rightarrow> real" where
  "trade_food f strength =
     dbl (dbl (f - dbl (strength * 50)) + dbl (dbl (strength * 50) * dbl (8 / 10)))"

definition trade_energy :: "real \<Rightarrow> real \<Rightarrow> real" where
  "trade_energy e strength =
     dbl (dbl (e - dbl (dbl (strength * 50) * dbl (8 / 10))) + dbl (dbl (strength * 50) * dbl (9 / 10)))"

section \<open>The world simulation (app/simulation/engine.py)\<close>

record cycle_data =
  cd_cycle :: int
  cd_timestamp :: real
  cd_regions :: "(string \<times> state_dict) list"
  cd_events :: "(string \<times> string list \<times> real) list"
  cd_actions :: "(string \<times> string \<times> real) list"

record WorldSimulation =
  num_regions :: int
  current_cycle :: int
  regions :: "(string \<times> RegionState) list"
  agents :: "(string \<times> RegionalAgent) list"
  trade_network :: TradeNetwork
  event_history :: "ClimaticEvent list"
  sim_action_history :: "cycle_data list"
  cycle_history :: "cycle_data list"

definition region_names :: "string list" where
  "region_names =
     [''Northern Plains'', ''Forest Kingdom'', ''Coastal Republic'',
      ''Desert Alliance'', ''Mountain Federation'', ''Valley States'']"

text \<open>The body of the loop of \<open>_initialize_world\<close> for the index \<open>i\<close>, and the loop
  over \<open>range(num_regions)\<close>.\<close>

definition init_region :: "nat \<Rightarrow> WorldSimulation \<Rightarrow> env \<Rightarrow> (py_error + WorldSimulation) \<times> env" where
  "init_region i w s =
     (let rid = ''region_'' @ str_nat i;
          region_name = (if i < length region_names then region_names ! i else ''Region '' @ str_nat i)
      in (case np_random_uniform 800 1200 s of (wat, s1) \<Rightarrow>
         (case np_random_uniform 800 1200 s1 of (fd, s2) \<Rightarrow>
         (case np_random_uniform 800 1200 s2 of (en, s3) \<Rightarrow>
         (case np_random_randint 80 120 s3 of
            (Inl e, s4) \<Rightarrow> (Inl e, s4)
          | (Inr pop, s4) \<Rightarrow>
         (case np_random_uniform (3 / 10) (7 / 10) s4 of (dev, s5) \<Rightarrow>
         (case np_random_uniform 15 25 s5 of (temp, s6) \<Rightarrow>
         (case np_random_uniform 80 150 s6 of (rain, s7) \<Rightarrow>
         (let region = \<lparr>region_id = rid, name = region_name,
                        resources = ResourcePool_new wat fd en 1000,
                        population = pop, development_level = dev, growth_rate = 2 / 100,
                        stability = 8 / 10, trade_partners = [], temperature = temp,
                        rainfall = rain, disaster_risk = 5 / 100\<rparr>
          in (case DQNAgent_init 12 9 (1 / 100) s7 of
                (Inl e, s8) \<Rightarrow> (Inl e, s8)
              | (Inr d, s8) \<Rightarrow>
                  (Inr (w\<lparr>regions := dict_set (regions w) rid region,
                          agents := dict_set (agents w) rid (RegionalAgent_init rid d),
                          trade_network := add_region (trade_network w) rid\<rparr>), s8)))))))))))"

fun init_regions :: "nat list \<Rightarrow> WorldSimulation \<Rightarrow> env \<Rightarrow> (py_error + WorldSimulation) \<times> env" where
  "init_regions [] w s = (Inr w, s)"
| "init_regions (i # rest) w s =
     (case init_region i w s of
        (Inl e, s') \<Rightarrow> (Inl e, s')
      | (Inr w', s') \<Rightarrow> init_regions rest w' s')"

text \<open>The inner and the outer loop of \<open>_establish_initial_trades\<close>.\<close>

fun initial_trades_from :: "string \<Rightarrow> string list \<Rightarrow> TradeNetwork \<Rightarrow> env \<Rightarrow> TradeNetwork \<times> env" where
  "initial_trades_from region_a [] tn s = (tn, s)"
| "initial_trades_from region_a (region_b # rest) tn s =
     (case np_random_random s of (u, s1) \<Rightarrow>
        if 3 / 10 < u
        then (case np_random_uniform (3 / 10) (8 / 10) s1 of (strength, s2) \<Rightarrow>
                initial_trades_from region_a rest (establish_trade tn region_a region_b strength) s2)
        else initial_trades_from region_a rest tn s1)"

fun initial_trades :: "nat list \<Rightarrow> string list \<Rightarrow> TradeNetwork \<Rightarrow> env \<Rightarrow> TradeNetwork \<times> env" where
  "initial_trades [] regions_list tn s = (tn, s)"
| "initial_trades (i # rest) regions_list tn s =
     (case initial_trades_from (regions_list ! i)
             (map (\<lambda>j. regions_list ! j) [i + 1 ..< min (i + 3) (length regions_list)]) tn s of
        (tn', s') \<Rightarrow> initial_trades rest regions_list tn' s')"

definition establish_initial_trades :: "WorldSimulation \<Rightarrow> env \<Rightarrow> WorldSimulation \<times> env" where
  "establish_initial_trades w s =
     (let regions_list = map fst (regions w)
      in (case initial_trades [0 ..< length regions_list] regions_list (trade_network w) s of
            (tn, s') \<Rightarrow> (w\<lparr>trade_network := tn\<rparr>, s')))"

definition initialize_world :: "WorldSimulation \<Rightarrow> env \<Rightarrow> (py_error + WorldSimulation) \<times> env" where
  "initialize_world w s =
     (case init_regions [0 ..< nat (num_regions w)] w s of
        (Inl e, s') \<Rightarrow> (Inl e, s')
      | (Inr w', s') \<Rightarrow> (case establish_initial_trades w' s' of (w'', s'') \<Rightarrow> (Inr w'', s'')))"

text \<open>\<open>WorldSimulation.__init__\<close>; \<open>gen\<close> is numpy's generator, from a seed to its stream.\<close>

definition WorldSimulation_init ::
  "(int \<Rightarrow> nat \<Rightarrow> real) \<Rightarrow> int \<Rightarrow> int \<Rightarrow> env \<Rightarrow> (py_error + WorldSimulation) \<times> env" where
  "WorldSimulation_init gen n seed s =
     (case np_random_seed gen seed s of
        (Inl e, s') \<Rightarrow> (Inl e, s')
      | (Inr u, s') \<Rightarrow>
          initialize_world
            \<lparr>num_regions = n, current_cycle = 0, regions = [], agents = [],
             trade_network = TradeNetwork_init, event_history = [],
             sim_action_history = [], cycle_history = []\<rparr> s')"

definition generate_climatic_event :: "WorldSimulation \<Rightarrow> env \<Rightarrow> (py_error + ClimaticEvent option) \<times> env" where
  "generate_climatic_event w s =
     (case np_random_random s of (u, s1) \<Rightarrow>
        if 15 / 100 < u then (Inr None, s1)
        else (case np_random_choice (map fst EVENT_TYPES) s1 of
                (Inl e, s2) \<Rightarrow> (Inl e, s2)
              | (Inr et, s2) \<Rightarrow>
             (case np_random_randint 1 (max 2 (num_regions w div 2)) s2 of
                (Inl e, s3) \<Rightarrow> (Inl e, s3)
              | (Inr num_affected, s3) \<Rightarrow>
             (case np_random_choice_distinct (map fst (regions w)) num_affected s3 of
                (Inl e, s4) \<Rightarrow> (Inl e, s4)
              | (Inr affected, s4) \<Rightarrow>
             (case np_random_uniform (5 / 10) (15 / 10) s4 of (sev, s5) \<Rightarrow>
             (case ClimaticEvent_init et affected sev s5 of (ev, s6) \<Rightarrow> (Inr (Some ev), s6)))))))"

definition update_basic_resources :: "RegionState \<Rightarrow> RegionState" where
  "update_basic_resources region =
     (let water_generation = rainfall region * 5;
          r1 = region\<lparr>resources := replenish (resources region) water_generation 0 0 0\<rparr>;
          food_production = development_level r1 * real_of_int (population r1) * 2;
          r2 = r1\<lparr>resources := replenish (resources r1) 0 food_production 0 0\<rparr>;
          energy_consumption = real_of_int (population r2 * 5);
          r3 = r2\<lparr>resources := deplete (resources r2) 0 0 energy_consumption 0\<rparr>
      in if real_of_int (population r3 * 8) < food (resources r3)
         then r3\<lparr>population := py_int (real_of_int (population r3) * (1 + growth_rate r3))\<rparr>
         else if food (resources r3) < real_of_int (population r3 * 3)
         then r3\<lparr>population := py_int (real_of_int (population r3) * (98 / 100))\<rparr>
         else r3)"

text \<open>The six tests of \<open>step\<close> on the chosen action's items (``Apply action effects'').\<close>

definition apply_action_effects :: "(string \<times> real) list \<Rightarrow> RegionState \<Rightarrow> RegionState" where
  "apply_action_effects action_effects region =
     (let r1 = (case map_of action_effects ''water'' of
                  Some v \<Rightarrow> region\<lparr>resources := deplete (resources region) (- v) 0 0 0\<rparr>
                | None \<Rightarrow> region);
          r2 = (case map_of action_effects ''food'' of
                  Some v \<Rightarrow> r1\<lparr>resources := deplete (resources r1) 0 (- v) 0 0\<rparr>
                | None \<Rightarrow> r1);
          r3 = (case map_of action_effects ''energy'' of
                  Some v \<Rightarrow> r2\<lparr>resources := deplete (resources r2) 0 0 (- v) 0\<rparr>
                | None \<Rightarrow> r2);
          r4 = (case map_of action_effects ''growth'' of
                  Some v \<Rightarrow> r3\<lparr>growth_rate := growth_rate r3 + v\<rparr>
                | None \<Rightarrow> r3);
          r5 = (case map_of action_effects ''pop_growth'' of
                  Some v \<Rightarrow> r4\<lparr>population := py_int (real_of_int (population r4) * (1 + v))\<rparr>
                | None \<Rightarrow> r4)
      in (case map_of action_effects ''dev_increase'' of
            Some v \<Rightarrow> r5\<lparr>development_level := min 1 (development_level r5 + v)\<rparr>
          | None \<Rightarrow> r5))"

text \<open>
  The body of the loop ``Agent decision making and resource allocation'' for one region:
  the error raised, if any, the region and the agents after it, the cycle report and the
  sources.
\<close>

definition agent_step ::
  "string \<Rightarrow> RegionState \<Rightarrow> (string \<times> RegionalAgent) list \<Rightarrow> cycle_data \<Rightarrow> env
     \<Rightarrow> py_error option \<times> RegionState \<times> (string \<times> RegionalAgent) list \<times> cycle_data \<times> env" where
  "agent_step rid region ags cd s =
     (case dict_get ags rid of
        Inl e \<Rightarrow> (Some e, region, ags, cd, s)
      | Inr agent \<Rightarrow>
     (let state_before = get_as_dict (resources region)
      in (case decide_action agent (get_state_dict region) True s of
            (Inl e, s1) \<Rightarrow> (Some e, region, ags, cd, s1)
          | (Inr (action_idx, action_name), s1) \<Rightarrow>
         (case dict_get ACTIONS action_idx of
            Inl e \<Rightarrow> (Some e, region, ags, cd, s1)
          | Inr (nm, action_effects) \<Rightarrow>
         (let region1 = apply_action_effects action_effects region;
              state_after = get_as_dict (resources region1)
          in (case calculate_reward state_before state_after (stability region1) (population region1) of
                Inl e \<Rightarrow> (Some e, region1, ags, cd, s1)
              | Inr reward \<Rightarrow>
             (case get_state_vector (get_state_dict region1) of
                Inl e \<Rightarrow> (Some e, region1, ags, cd, s1)
              | Inr state_vec \<Rightarrow>
             (case get_state_vector (get_state_dict region1) of
                Inl e \<Rightarrow> (Some e, region1, ags, cd, s1)
              | Inr next_state_vec \<Rightarrow>
             (case RegionState_is_critical region1 of
                Inl e \<Rightarrow> (Some e, region1, ags, cd, s1)
              | Inr done \<Rightarrow>
             (case learn agent state_vec action_idx reward next_state_vec done s1 of
                (Inl e, agent', s2) \<Rightarrow> (Some e, region1, dict_set ags rid agent', cd, s2)
              | (Inr loss, agent', s2) \<Rightarrow>
                  (None, region1, dict_set ags rid agent',
                   cd\<lparr>cd_regions := dict_set (cd_regions cd) rid (get_state_dict region1),
                      cd_actions := cd_actions cd @ [(rid, action_name, reward)]\<rparr>, s2)))))))))))"

fun agents_loop ::
  "(string \<times> RegionState) list \<Rightarrow> (string \<times> RegionalAgent) list \<Rightarrow> cycle_data \<Rightarrow> env
     \<Rightarrow> py_error option \<times> (string \<times> RegionState) list \<times> (string \<times> RegionalAgent) list \<times> cycle_data \<times> env" where
  "agents_loop [] ags cd s = (None, [], ags, cd, s)"
| "agents_loop ((rid, region) # rest) ags cd s =
     (case agent_step rid region ags cd s of
        (Some e, region', ags', cd', s') \<Rightarrow> (Some e, (rid, region') # rest, ags', cd', s')
      | (None, region', ags', cd', s') \<Rightarrow>
          (case agents_loop rest ags' cd' s' of
             (res, rest', ags'', cd'', s'') \<Rightarrow> (res, (rid, region') # rest', ags'', cd'', s'')))"

text \<open>The loops ``Execute trades'': over the partners of one region, and over the regions.\<close>

fun trade_partners_loop ::
  "string \<Rightarrow> (string \<times> real) list \<Rightarrow> TradeNetwork \<Rightarrow> (string \<times> RegionState) list \<Rightarrow> env
     \<Rightarrow> py_error option \<times> TradeNetwork \<times> (string \<times> RegionState) list \<times> env" where
  "trade_partners_loop region_a_id [] tn regs s = (None, tn, regs, s)"
| "trade_partners_loop region_a_id ((region_b_id, strength) # rest) tn regs s =
     (if region_a_id < region_b_id
      then (case np_random_random s of (u, s1) \<Rightarrow>
              if 5 / 10 < u
              then (case execute_trade tn regs region_a_id region_b_id strength s1 of
                      (Some e, tn', regs', s2) \<Rightarrow> (Some e, tn', regs', s2)
                    | (None, tn', regs', s2) \<Rightarrow> trade_partners_loop region_a_id rest tn' regs' s2)
              else trade_partners_loop region_a_id rest tn regs s1)
      else trade_partners_loop region_a_id rest tn regs s)"

fun trades_loop ::
  "(string \<times> (string \<times> real) list) list \<Rightarrow> TradeNetwork \<Rightarrow> (string \<times> RegionState) list \<Rightarrow> env
     \<Rightarrow> py_error option \<times> TradeNetwork \<times> (string \<times> RegionState) list \<times> env" where
  "trades_loop [] tn regs s = (None, tn, regs, s)"
| "trades_loop ((region_a_id, partners) # rest) tn regs s =
     (case trade_partners_loop region_a_id partners tn regs s of
        (Some e, tn', regs', s') \<Rightarrow> (Some e, tn', regs', s')
      | (None, tn', regs', s') \<Rightarrow> trades_loop rest tn' regs' s')"

text \<open>
  \<open>step\<close>: the cycle report or the error raised, the simulation after the call (with the
  mutations done before a raise) and the sources.
\<close>

definition step :: "WorldSimulation \<Rightarrow> env \<Rightarrow> (py_error + cycle_data) \<times> WorldSimulation \<times> env" where
  "step w s =
     (case now s of (t, s0) \<Rightarrow>
     (let cd = \<lparr>cd_cycle = current_cycle w, cd_timestamp = t, cd_regions = [],
                cd_events = [], cd_actions = []\<rparr>;
          w1 = w\<lparr>regions := map (\<lambda>(rid, region). (rid, update_basic_resources region)) (regions w)\<rparr>
      in (case generate_climatic_event w1 s0 of
            (Inl e, s1) \<Rightarrow> (Inl e, w1, s1)
          | (Inr event, s1) \<Rightarrow>
         (let (w2, cd2) =
                (case event of
                   None \<Rightarrow> (w1, cd)
                 | Some ev \<Rightarrow>
                     (w1\<lparr>event_history := event_history w1 @ [ev],
                         regions := map (\<lambda>(rid, region). (rid, fst (apply_event ev region))) (regions w1)\<rparr>,
                      cd\<lparr>cd_events := cd_events cd @ [(event_type ev, affected_regions ev, severity ev)]\<rparr>))
          in (case agents_loop (regions w2) (agents w2) cd2 s1 of
                (Some e, regs3, ags3, cd3, s3) \<Rightarrow> (Inl e, w2\<lparr>regions := regs3, agents := ags3\<rparr>, s3)
              | (None, regs3, ags3, cd3, s3) \<Rightarrow>
             (let w3 = w2\<lparr>regions := regs3, agents := ags3\<rparr>
              in (case trades_loop (map (\<lambda>rid. (rid, get_trading_partners (trade_network w3) rid))
                                        (map fst (regions w3)))
                          (trade_network w3) (regions w3) s3 of
                    (Some e, tn4, regs4, s4) \<Rightarrow> (Inl e, w3\<lparr>trade_network := tn4, regions := regs4\<rparr>, s4)
                  | (None, tn4, regs4, s4) \<Rightarrow>
                      (let w4 = w3\<lparr>trade_network := tn4, regions := regs4\<rparr>;
                           w5 = w4\<lparr>cycle_history := cycle_history w4 @ [cd3]\<rparr>;
                           w6 = w5\<lparr>current_cycle := current_cycle w5 + 1\<rparr>
                       in (Inr cd3, w6, s4)))))))))"

section \<open>The reward as the specification words it\<close>

text \<open>
  \<open>resource_health\<close> is the mean of water, food and energy, each divided by 2000; the
  total is \<open>resource_health \<times> 3 + stability \<times> 2 + min(population/500, 1) \<times> 0.5 +
  starvation_penalty\<close>, where the penalty is \<open>-5\<close> if food is below 100 and an additional
  \<open>-3\<close> if energy is below 100; the result is clamped to \<open>[-10, 10]\<close>.
\<close>

definition reward_spec :: "real \<Rightarrow> real \<Rightarrow> real \<Rightarrow> real \<Rightarrow> int \<Rightarrow> real" where
  "reward_spec w f e stab pop =
     (let resource_health = (w / 2000 + f / 2000 + e / 2000) / 3;
          starvation_penalty = (if f < 100 then -5 else 0) + (if e < 100 then -3 else 0);
          total = resource_health * 3 + stab * 2 + min (real_of_int pop / 500) 1 * (1 / 2)
                  + starvation_penalty
      in max (-10) (min 10 total))"

section \<open>Concrete inputs\<close>

text \<open>\<open>RegionState(region_id, name, resources, population, development_level, growth_rate)\<close>:
  the remaining fields take the defaults of the dataclass.\<close>

definition RegionState_init ::
  "string \<Rightarrow> string \<Rightarrow> ResourcePool \<Rightarrow> int \<Rightarrow> real \<Rightarrow> real \<Rightarrow> RegionState" where
  "RegionState_init rid nm res pop dev gr =
     \<lparr>region_id = rid, name = nm, resources = res, population = pop, development_level = dev,
      growth_rate = gr, stability = 8 / 10, trade_partners = [], temperature = 20,
      rainfall = 100, disaster_risk = 5 / 100\<rparr>"

text \<open>Sources whose generators return the constants \<open>u\<close> (numpy) and \<open>v\<close> (\<open>random\<close>).\<close>

definition const_env :: "real \<Rightarrow> real \<Rightarrow> env" where
  "const_env u v =
     \<lparr>np_tape = (\<lambda>i. u), np_pos = 0, py_tape = (\<lambda>i. v), py_pos = 0,
      clock = (\<lambda>i. 0), clock_pos = 0\<rparr>"

definition region_a0 :: RegionState where
  "region_a0 = RegionState_init ''region_0'' ''Northern Plains'' (ResourcePool_new 1000 1000 1000 1000)
                 100 (1 / 2) (2 / 100)"







text \<open>The ledger dict of a pool whose stocks are all 0.\<close>

definition stocks0 :: "string \<rightharpoonup> real" where
  "stocks0 = get_as_dict (ResourcePool_new 0 0 0 0)"

text \<open>A learner as \<open>DQNAgent()\<close> builds it, with the value estimates \<open>qs\<close>.\<close>

definition dqn0 :: "real list \<Rightarrow> DQNAgent" where
  "dqn0 qs =
     \<lparr>state_size = 12, action_size = 9, learning_rate = 1 / 100, gamma = 95 / 100,
      epsilon = 1, epsilon_decay = 995 / 1000, epsilon_min = 1 / 100,
      q_values = qs, memory = [], loss_history = []\<rparr>"

text \<open>Test drivers: remembering a list of transitions one by one, and \<open>n\<close> successive calls
  of \<open>replay(batch_size)\<close> whose results are dropped.\<close>

fun remember_all :: "DQNAgent \<Rightarrow> transition list \<Rightarrow> DQNAgent" where
  "remember_all a [] = a"
| "remember_all a (t # ts) = remember_all (remember a t) ts"

fun replay_n :: "nat \<Rightarrow> DQNAgent \<Rightarrow> int \<Rightarrow> env \<Rightarrow> DQNAgent \<times> env" where
  "replay_n 0 a batch_size s = (a, s)"
| "replay_n (Suc n) a batch_size s =
     (case replay a batch_size s of (res, a', s') \<Rightarrow> replay_n n a' batch_size s')"

text \<open>A terminal transition on action 0, and a fresh learner that has remembered 32 of them.\<close>

definition terminal0 :: transition where
  "terminal0 = (replicate 12 0, 0, 0, replicate 12 0, True)"

definition dqn32 :: DQNAgent where
  "dqn32 = remember_all (dqn0 (replicate 9 0)) (replicate 32 terminal0)"

text \<open>
  A generator that returns 0.9 at every draw, whatever the seed, and what
  \<open>WorldSimulation(num_regions=1, seed=42)\<close> builds from it: the region, the simulation, the
  sources on a numpy stream \<open>tp\<close> at given read positions (\<open>v\<close> is what the \<open>random\<close>
  module returns at every draw) and the sources after the construction.
\<close>

definition gen1 :: "int \<Rightarrow> nat \<Rightarrow> real" where
  "gen1 seed i = 9 / 10"

definition region1 :: RegionState where
  "region1 =
     \<lparr>region_id = ''region_0'', name = ''Northern Plains'',
      resources = \<lparr>water = 1160, food = 1160, energy = 1160, land = 1000,
                   max_water = 2000, max_food = 2000, max_energy = 2000, max_land = 1000\<rparr>,
      population = 116, development_level = 33 / 50, growth_rate = 1 / 50,
      stability = 4 / 5, trade_partners = [], temperature = 24,
      rainfall = 143, disaster_risk = 1 / 20\<rparr>"

definition world1 :: WorldSimulation where
  "world1 =
     \<lparr>num_regions = 1, current_cycle = 0, regions = [(''region_0'', region1)],
      agents = [(''region_0'', RegionalAgent_init ''region_0'' (dqn0 (replicate 9 (9 / 1000))))],
      trade_network = \<lparr>trade_graph = [(''region_0'', [])], trade_history = []\<rparr>,
      event_history = [], sim_action_history = [], cycle_history = []\<rparr>"

definition env_at :: "(nat \<Rightarrow> real) \<Rightarrow> nat \<Rightarrow> nat \<Rightarrow> nat \<Rightarrow> real \<Rightarrow> env" where
  "env_at tp i j k v =
     \<lparr>np_tape = tp, np_pos = i, py_tape = (\<lambda>n. v), py_pos = j,
      clock = (\<lambda>n. 0), clock_pos = k\<rparr>"

definition env1 :: "real \<Rightarrow> env" where
  "env1 v = env_at (gen1 42) 16 0 0 v"

text \<open>
  A generator whose unit draws are 0.9 and whose normal deviates (the cells 7 to 15, read
  by \<open>randn\<close> for the value estimates of the first agent) are \<open>-0.5\<close>, and what
  \<open>WorldSimulation(num_regions=1, seed=42)\<close> builds from it.
\<close>

definition gen3 :: "int \<Rightarrow> nat \<Rightarrow> real" where
  "gen3 seed i = (if 7 \<le> i \<and> i < 16 then - (1 / 2) else 9 / 10)"

definition world3 :: WorldSimulation where
  "world3 =
     world1\<lparr>agents := [(''region_0'', RegionalAgent_init ''region_0'' (dqn0 (replicate 9 (- (1 / 200)))))]\<rparr>"

definition env3 :: env where
  "env3 = env_at (gen3 42) 16 0 0 (1 / 4)"

text \<open>The region of \<open>world1\<close> after the natural dynamics of one cycle.\<close>

definition region1_updated :: RegionState where
  "region1_updated =
     region1\<lparr>resources := (resources region1)\<lparr>water := 1875, food := 32828 / 25, energy := 580\<rparr>,
             population := 118\<rparr>"

text \<open>Two regions with a nearly full water stock, no food and a full energy stock; a flood.\<close>

definition region_c0 :: RegionState where
  "region_c0 = RegionState_init ''region_0'' ''Northern Plains'' (ResourcePool_new 1900 0 2000 1000)
                 100 (1 / 2) (2 / 100)"

definition region_c1 :: RegionState where
  "region_c1 = RegionState_init ''region_1'' ''Forest Kingdom'' (ResourcePool_new 1900 0 2000 1000)
                 100 (1 / 2) (2 / 100)"

definition regions_c :: "(string \<times> RegionState) list" where
  "regions_c = [(''region_0'', region_c0), (''region_1'', region_c1)]"

definition flood1 :: ClimaticEvent where
  "flood1 = \<lparr>event_type = ''flood'', affected_regions = [''region_0''], severity = 1, timestamp = 0\<rparr>"

text \<open>
  A test driver: \<open>n\<close> successive calls of \<open>step()\<close> by a caller that catches what a call
  raises, as the route \<open>/simulation/step\<close> does; and the populations of a simulation.
\<close>

fun steps :: "nat \<Rightarrow> WorldSimulation \<Rightarrow> env \<Rightarrow> WorldSimulation \<times> env" where
  "steps 0 w s = (w, s)"
| "steps (Suc n) w s = (case step w s of (res, w', s') \<Rightarrow> steps n w' s')"

definition populations :: "WorldSimulation \<Rightarrow> int list" where
  "populations w = map (\<lambda>(rid, r). population r) (regions w)"

text \<open>
  A generator and what \<open>WorldSimulation(num_regions=1, seed=42)\<close> builds from it: a region
  with 800 food, 110 inhabitants and development level 0.3. For 51 cycles the generator
  then makes a cold snap of severity 0.66 hit the region; afterwards no event occurs. The
  \<open>random\<close> module picks the action ``Conserve Resources'' at every cycle.
\<close>

definition gen2 :: "int \<Rightarrow> nat \<Rightarrow> real" where
  "gen2 seed i =
     (if i < 16 then (if i = 1 \<or> i = 4 then 0 else if i = 3 then 3 / 4 else 9 / 10)
      else if i < 322
      then (if (i - 16) mod 6 = 0 then 1 / 10 else if (i - 16) mod 6 = 4 then 4 / 25 else 1 / 2)
      else 1 / 2)"

definition region2 :: RegionState where
  "region2 = region1\<lparr>resources := (resources region1)\<lparr>food := 800\<rparr>,
                     population := 110, development_level := 3 / 10\<rparr>"

definition world2 :: WorldSimulation where
  "world2 = world1\<lparr>regions := [(''region_0'', region2)]\<rparr>"

definition env2 :: env where
  "env2 = env_at (gen2 42) 16 0 0 (2 / 3)"

definition coldsnap2 :: ClimaticEvent where
  "coldsnap2 = \<lparr>event_type = ''coldsnap'', affected_regions = [''region_0''],
                 severity = 33 / 50, timestamp = 0\<rparr>"

text \<open>The items of the action ``Conserve Resources''; what a cycle with the cold snap and
  a cycle without event make of a region; the regions on which the former only lowers the
  growth rate.\<close>

definition conserve_items :: "(string \<times> real) list" where
  "conserve_items = [(''conservation'', 3 / 10), (''growth'', - (2 / 100))]"

definition event_cycle :: "RegionState \<Rightarrow> RegionState" where
  "event_cycle r = apply_action_effects conserve_items (fst (apply_event coldsnap2 (update_basic_resources r)))"

definition quiet_cycle :: "RegionState \<Rightarrow> RegionState" where
  "quiet_cycle r = apply_action_effects conserve_items (update_basic_resources r)"

definition steady :: "real \<Rightarrow> RegionState \<Rightarrow> bool" where
  "steady g r = (region_id r = ''region_0'' \<and> food (resources r) = 800 \<and> max_food (resources r) = 2000 \<and>
                 population r = 110 \<and> development_level r = 3 / 10 \<and> growth_rate r = g)"

section \<open>Lemmas on dictionaries\<close>


lemma map_fst_dict_modify: "map fst (dict_modify d k f) = map fst d"
  by (induction d) (auto simp: dict_modify_def)

section \<open>Construction of a resource pool\<close>

text \<open>
  C10. Constructing a \<open>ResourcePool\<close> from four initial stocks clamps each stock from above
  to its cap (2000 for water, food and energy, 1000 for land) and does nothing else: there
  is no lower clamp, a negative initial stock stays as it is.
\<close>

theorem ResourcePool_new_clamps_above_only:
  "water (ResourcePool_new w f e l) = min w 2000 \<and>
   food (ResourcePool_new w f e l) = min f 2000 \<and>
   energy (ResourcePool_new w f e l) = min e 2000 \<and>
   land (ResourcePool_new w f e l) = min l 1000 \<and>
   (w < 0 \<longrightarrow> water (ResourcePool_new w f e l) = w) \<and>
   (f < 0 \<longrightarrow> food (ResourcePool_new w f e l) = f) \<and>
   (e < 0 \<longrightarrow> energy (ResourcePool_new w f e l) = e) \<and>
   (l < 0 \<longrightarrow> land (ResourcePool_new w f e l) = l)"
  by (simp add: ResourcePool_new_def ResourcePool_init_def post_init_def Let_def)

theorem ResourcePool_new_clamps_above_only_witness:
  "water (ResourcePool_new (-5) 2500 (-1) (-7)) = -5 \<and>
   food (ResourcePool_new (-5) 2500 (-1) (-7)) = 2000 \<and>
   energy (ResourcePool_new (-5) 2500 (-1) (-7)) = -1 \<and>
   land (ResourcePool_new (-5) 2500 (-1) (-7)) = -7"
  using ResourcePool_new_clamps_above_only [of "-5" 2500 "-1" "-7"] by simp

section \<open>Events on unaffected regions\<close>

text \<open>
  C9. Applying a climatic event to a region whose id is not in the event's
  \<open>affected_regions\<close> leaves the region as it was (ledger, population and every other
  field) and returns the empty effects dict.
\<close>

theorem apply_event_unaffected_noop:
  "region_id r \<notin> set (affected_regions ev) \<Longrightarrow> apply_event ev r = (r, Map.empty)"
  by (simp add: apply_event_def)

theorem apply_event_unaffected_noop_witness:
  "region_id region_a0 \<notin> set [''region_1'', ''region_2''] \<and>
   apply_event \<lparr>event_type = ''drought'', affected_regions = [''region_1'', ''region_2''],
                severity = 1, timestamp = 0\<rparr> region_a0 = (region_a0, Map.empty)"
proof -
  have h: "region_id region_a0 \<notin> set (affected_regions
             \<lparr>event_type = ''drought'', affected_regions = [''region_1'', ''region_2''],
              severity = 1, timestamp = 0\<rparr>)"
    by (simp add: region_a0_def RegionState_init_def)
  from apply_event_unaffected_noop [OF h] h show ?thesis by simp
qed

section \<open>Replay on a short buffer\<close>

text \<open>
  C7. When the replay buffer holds fewer than \<open>batch_size\<close> transitions,
  \<open>replay(batch_size)\<close> returns the loss 0 and changes nothing: the learner (its
  exploration rate, value estimates, loss history and buffer) and the random sources are
  as before.
\<close>

theorem replay_short_buffer_noop:
  "int (length (memory a)) < batch_size \<Longrightarrow> replay a batch_size s = (Inr 0, a, s)"
  by (simp add: replay_def)

theorem replay_short_buffer_noop_witness:
  "int (length (memory (dqn0 [0, 0, 0, 0, 0, 0, 0, 0, 0]))) < 32 \<and>
   replay (dqn0 [0, 0, 0, 0, 0, 0, 0, 0, 0]) 32 (const_env (1 / 2) 0)
     = (Inr 0, dqn0 [0, 0, 0, 0, 0, 0, 0, 0, 0], const_env (1 / 2) 0)"
proof -
  have h: "int (length (memory (dqn0 [0, 0, 0, 0, 0, 0, 0, 0, 0]))) < 32"
    by (simp add: dqn0_def)
  from replay_short_buffer_noop [OF h] h show ?thesis by simp
qed

section \<open>Rounding to a double\<close>

text \<open>Where the scaling stops, and the numbers that rounding leaves as they are.\<close>

lemma scale_up:
  "k \<le> n \<Longrightarrow> 2 ^ 52 \<le> y * 2 ^ k \<Longrightarrow> y * 2 ^ k < 2 ^ 53 \<Longrightarrow> - 1074 \<le> e - int k
     \<Longrightarrow> scale_to n y e = (y * 2 ^ k, e - int k)"
proof (induction k arbitrary: n y e)
  case 0
  then show ?case by (cases n) auto
next
  case (Suc k)
  then obtain n' where n: "n = Suc n'" by (cases n) auto
  have "(0::real) < 2 ^ 52" by simp
  then have "0 < y * 2 ^ Suc k" using Suc.prems(2) by linarith
  then have "0 < y" by (simp add: zero_less_mult_iff)
  have "y * 2 \<le> y * 2 ^ Suc k" using \<open>0 < y\<close> by simp
  then have y: "y < 2 ^ 52" using Suc.prems(3) by simp
  have e: "- 1074 < e" using Suc.prems(4) by simp
  have "scale_to n' (2 * y) (e - 1) = (2 * y * 2 ^ k, e - 1 - int k)"
    using Suc.prems by (intro Suc.IH) (auto simp: n mult.assoc mult.left_commute)
  then show ?case using y e by (simp add: n mult.assoc mult.left_commute)
qed


lemma scale_down:
  "k \<le> n \<Longrightarrow> 2 ^ 52 \<le> y / 2 ^ k \<Longrightarrow> y / 2 ^ k < 2 ^ 53
     \<Longrightarrow> scale_to n y e = (y / 2 ^ k, e + int k)"
proof (induction k arbitrary: n y e)
  case 0
  then show ?case by (cases n) auto
next
  case (Suc k)
  then obtain n' where n: "n = Suc n'" by (cases n) auto
  have "(0::real) < 2 ^ 52" by simp
  then have "0 < y / 2 ^ Suc k" using Suc.prems(2) by linarith
  then have y0: "0 < y" by (simp add: zero_less_divide_iff)
  define z :: real where "z = 2 ^ k"
  have z: "1 \<le> z" by (simp add: z_def)
  have "2 ^ 52 * (2 * z) \<le> y" using Suc.prems(2) by (simp add: z_def pos_le_divide_eq)
  then have y: "2 ^ 53 \<le> y" using z by simp
  have "scale_to n' (y / 2) (e + 1) = (y / 2 / 2 ^ k, e + 1 + int k)"
    using Suc.prems by (intro Suc.IH) (auto simp: n)
  then show ?case using y by (simp add: n)
qed

lemma dbl_up:
  assumes "x \<noteq> 0" and "k \<le> 1074" and "2 ^ 52 \<le> \<bar>x\<bar> * 2 ^ k" and "\<bar>x\<bar> * 2 ^ k < 2 ^ 53"
  shows "dbl x = sgn x * real_of_int (round_even (\<bar>x\<bar> * 2 ^ k)) / 2 ^ k"
proof -
  have "scale_to 2200 \<bar>x\<bar> 0 = (\<bar>x\<bar> * 2 ^ k, 0 - int k)"
    using assms by (intro scale_up) auto
  then show ?thesis using assms(1) by (simp add: dbl_def power_int_minus field_simps)
qed

lemma dbl_down:
  assumes "x \<noteq> 0" and "k \<le> 2200" and "2 ^ 52 \<le> \<bar>x\<bar> / 2 ^ k" and "\<bar>x\<bar> / 2 ^ k < 2 ^ 53"
  shows "dbl x = sgn x * real_of_int (round_even (\<bar>x\<bar> / 2 ^ k)) * 2 ^ k"
proof -
  have "scale_to 2200 \<bar>x\<bar> 0 = (\<bar>x\<bar> / 2 ^ k, 0 + int k)"
    using assms by (intro scale_down) auto
  then show ?thesis using assms(1) by (simp add: dbl_def)
qed

lemma round_even_int: "round_even (real_of_int m) = m"
  by (simp add: round_even_def)

text \<open>Representable numbers are fixed points.\<close>

lemma dbl_exact:
  assumes "\<bar>x\<bar> * 2 ^ k = real_of_int m" and "k \<le> 1074" and "2 ^ 52 \<le> m" and "m < 2 ^ 53"
  shows "dbl x = x"
proof -
  have x0: "x \<noteq> 0" using assms(1,3) by auto
  have a: "2 ^ 52 \<le> \<bar>x\<bar> * 2 ^ k" "\<bar>x\<bar> * 2 ^ k < 2 ^ 53"
    using assms(1,3,4) by simp_all
  have "dbl x = sgn x * real_of_int (round_even (\<bar>x\<bar> * 2 ^ k)) / 2 ^ k"
    by (rule dbl_up [OF x0 assms(2) a])
  also have "\<dots> = sgn x * (\<bar>x\<bar> * 2 ^ k) / 2 ^ k" by (simp add: assms(1) round_even_int)
  also have "\<dots> = x" by (simp add: sgn_real_def abs_real_def)
  finally show ?thesis .
qed

text \<open>The constants of a trade of strength 0.5.\<close>

lemma dbl_amount_half: "dbl (1 / 2 * 50) = 25"
  by (rule trans [OF _ refl], subst dbl_exact [where k = 48 and m = "25 * 2 ^ 48"]) simp_all

lemma dbl_08: "dbl (8 / 10) = 7205759403792794 / 2 ^ 53"
  by (subst dbl_up [where k = 53]) (simp_all add: round_even_def)

lemma dbl_09: "dbl (9 / 10) = 8106479329266893 / 2 ^ 53"
  by (subst dbl_up [where k = 53]) (simp_all add: round_even_def)

lemma dbl_25_08: "dbl (25 * (7205759403792794 / 2 ^ 53)) = 20"
  by (subst dbl_up [where k = 48]) (simp_all add: round_even_def)

lemma dbl_25_09: "dbl (25 * (8106479329266893 / 2 ^ 53)) = 45 / 2"
  by (subst dbl_up [where k = 48]) (simp_all add: round_even_def)

lemma trade_food_half:
  assumes "dbl (f - 25) = f - 25" and "dbl (f - 5) = f - 5"
  shows "trade_food f (1 / 2) = f - 5"
proof -
  have "trade_food f (1 / 2) = dbl (dbl (f - 25) + 20)"
    unfolding trade_food_def by (simp only: dbl_amount_half dbl_08 dbl_25_08)
  also have "\<dots> = dbl (f - 5)"
  proof -
    have "f - 25 + 20 = f - 5" by simp
    then show ?thesis by (simp only: assms(1))
  qed
  finally show ?thesis using assms(2) by simp
qed

lemma trade_energy_half:
  assumes "dbl (e - 20) = e - 20" and "dbl (e + 5 / 2) = e + 5 / 2"
  shows "trade_energy e (1 / 2) = e + 5 / 2"
proof -
  have "trade_energy e (1 / 2) = dbl (dbl (e - 20) + 45 / 2)"
    unfolding trade_energy_def by (simp only: dbl_amount_half dbl_08 dbl_09 dbl_25_08 dbl_25_09)
  also have "\<dots> = dbl (e + 5 / 2)"
  proof -
    have "e - 20 + 45 / 2 = e + 5 / 2" by simp
    then show ?thesis by (simp only: assms(1))
  qed
  finally show ?thesis using assms(2) by simp
qed

section \<open>The effect of a trade\<close>

text \<open>A trade between the two regions of a store of two.\<close>

lemma execute_trade_two:
  assumes "a \<noteq> b"
  shows "execute_trade tn [(a, ra), (b, rb)] a b strength s
     = (None,
        tn\<lparr>trade_history := trade_history tn @
             [\<lparr>te_region_a = region_id ra, te_region_b = region_id rb,
               te_strength = strength, te_timestamp = clock s (clock_pos s)\<rparr>]\<rparr>,
        [(a, ra\<lparr>resources := (resources ra)\<lparr>food := trade_food (food (resources ra)) strength\<rparr>\<rparr>),
         (b, rb\<lparr>resources := (resources rb)\<lparr>energy := trade_energy (energy (resources rb)) strength\<rparr>\<rparr>)],
        s\<lparr>clock_pos := Suc (clock_pos s)\<rparr>)"
  using assms
  by (simp add: execute_trade_def dict_get_def dict_modify_def now_def trade_food_def trade_energy_def
        Let_def)













section \<open>The reward\<close>

text \<open>
  C5. On resource dicts that hold water, food and energy, \<open>calculate_reward\<close> returns
  exactly the reward of the specification: \<open>resource_health \<times> 3 + stability \<times> 2 +
  min(population/500, 1) \<times> 0.5 + starvation_penalty\<close>, clamped to \<open>[-10, 10]\<close>; the result
  lies in \<open>[-10, 10]\<close> whatever the stocks, the stability and the population are. (Exact
  arithmetic.)
\<close>

theorem calculate_reward_formula:
  assumes "cur ''water'' = Some w" and "cur ''food'' = Some f" and "cur ''energy'' = Some e"
  shows "calculate_reward prev cur stab pop = Inr (reward_spec w f e stab pop) \<and>
         -10 \<le> reward_spec w f e stab pop \<and> reward_spec w f e stab pop \<le> 10"
  using assms
  by (simp add: calculate_reward_def reward_spec_def then_r_def dict_item_def Let_def
                min_def max_def)

theorem calculate_reward_formula_witness:
  "stocks0 ''water'' = Some 0 \<and> stocks0 ''food'' = Some 0 \<and> stocks0 ''energy'' = Some 0 \<and>
   calculate_reward Map.empty stocks0 (8 / 10) 100 = Inr (- 63 / 10) \<and>
   reward_spec 0 0 0 (8 / 10) 100 = - 63 / 10"
proof -
  have h1: "stocks0 ''water'' = Some 0"
    by (simp add: stocks0_def get_as_dict_def ResourcePool_new_def ResourcePool_init_def post_init_def)
  have h2: "stocks0 ''food'' = Some 0"
    by (simp add: stocks0_def get_as_dict_def ResourcePool_new_def ResourcePool_init_def post_init_def)
  have h3: "stocks0 ''energy'' = Some 0"
    by (simp add: stocks0_def get_as_dict_def ResourcePool_new_def ResourcePool_init_def post_init_def)
  have v: "reward_spec 0 0 0 (8 / 10) 100 = - 63 / 10"
    by (simp add: reward_spec_def Let_def)
  from calculate_reward_formula [OF h1 h2 h3, of Map.empty "8 / 10" 100] v h1 h2 h3
  show ?thesis by simp
qed

section \<open>A cycle of the simulation raises\<close>

text \<open>
  The body of the agents' loop never completes: every path through it ends in an
  exception, the last one being the \<open>AttributeError\<close> of \<open>region.is_critical()\<close>. So a
  \<open>step\<close> on a simulation with at least one region raises, before the cycle report is
  appended and the counter incremented.
\<close>

lemma agent_step_raises:
  "\<exists>e r' ags' cd' s'. agent_step rid region ags cd s = (Some e, r', ags', cd', s')"
  by (auto simp: agent_step_def RegionState_is_critical_def Let_def split: sum.splits prod.splits)

lemma agents_loop_raises:
  "regs \<noteq> [] \<Longrightarrow> \<exists>e regs' ags' cd' s'. agents_loop regs ags cd s = (Some e, regs', ags', cd', s')"
proof (cases regs)
  case Nil then show "regs \<noteq> [] \<Longrightarrow> ?thesis" by simp
next
  case (Cons p rest)
  obtain rid region where p: "p = (rid, region)" by (cases p)
  from agent_step_raises [of rid region ags cd s]
  obtain e r' ags' cd' s' where "agent_step rid region ags cd s = (Some e, r', ags', cd', s')" by blast
  then show ?thesis using Cons p by simp
qed

lemma step_raises_with_regions:
  assumes "regions w \<noteq> []"
  shows "\<exists>e w' s'. step w s = (Inl e, w', s') \<and> current_cycle w' = current_cycle w \<and>
           cycle_history w' = cycle_history w"
proof -
  obtain t s0 where t: "now s = (t, s0)" by (cases "now s")
  let ?w1 = "w\<lparr>regions := map (\<lambda>(rid, region). (rid, update_basic_resources region)) (regions w)\<rparr>"
  obtain r1 s1 where g: "generate_climatic_event ?w1 s0 = (r1, s1)" by (cases "generate_climatic_event ?w1 s0")
  show ?thesis
  proof (cases r1)
    case (Inl e)
    then show ?thesis using t g by (simp add: step_def Let_def)
  next
    case (Inr event)
    show ?thesis
    proof (cases event)
      case None
      from agents_loop_raises [of "regions ?w1"] assms
      obtain e regs' ags' cd' s' where
        "agents_loop (regions ?w1) (agents ?w1) \<lparr>cd_cycle = current_cycle w, cd_timestamp = t, cd_regions = [],
                cd_events = [], cd_actions = []\<rparr> s1 = (Some e, regs', ags', cd', s')"
        by fastforce
      then show ?thesis using t g Inr None by (simp add: step_def Let_def)
    next
      case (Some ev)
      let ?w2 = "?w1\<lparr>event_history := event_history ?w1 @ [ev],
                         regions := map (\<lambda>(rid, region). (rid, fst (apply_event ev region))) (regions ?w1)\<rparr>"
      from agents_loop_raises [of "regions ?w2"] assms
      obtain e regs' ags' cd' s' where
        "agents_loop (regions ?w2) (agents ?w2) (\<lparr>cd_cycle = current_cycle w, cd_timestamp = t, cd_regions = [],
                cd_events = [], cd_actions = []\<rparr>\<lparr>cd_events := [] @ [(event_type ev, affected_regions ev, severity ev)]\<rparr>) s1 = (Some e, regs', ags', cd', s')"
        by fastforce
      then show ?thesis using t g Inr Some by (simp add: step_def Let_def)
    qed
  qed
qed


text \<open>The simulation \<open>WorldSimulation(num_regions=1, seed=42)\<close> on the generator \<open>gen1\<close>, and
  its first \<open>step\<close> when the \<open>random\<close> module picks the action \<open>k\<close>.\<close>

lemma now_env_at: "now (env_at tp i j k v) = (0, env_at tp i j (Suc k) v)"
  by (simp add: now_def env_at_def)

lemma np_random_env_at: "np_random_random (env_at tp i j k v) = (tp i, env_at tp (Suc i) j k v)"
  by (simp add: np_random_random_def env_at_def)

lemma py_random_env_at: "py_random_random (env_at tp i j k v) = (v, env_at tp i (Suc j) k v)"
  by (simp add: py_random_random_def env_at_def)

lemma seed_env_at: "np_random_seed gen 42 (const_env u v) = (Inr (), env_at (gen 42) 0 0 0 v)"
  by (simp add: np_random_seed_def const_env_def env_at_def)

lemma str_nat_0: "str_nat 0 = ''0''"
  by (simp add: str_nat.simps [of 0] digit_char_def)

lemma randn_env_at:
  "np_random_randn n (env_at tp i j k v) = (map tp [i ..< i + n], env_at tp (i + n) j k v)"
proof (induction n arbitrary: i)
  case 0
  then show ?case by simp
next
  case (Suc n)
  have "[i ..< i + Suc n] = i # [Suc i ..< Suc i + n]" by (simp add: upt_conv_Cons)
  then show ?case using Suc [of "Suc i"] by (simp add: np_random_env_at)
qed

lemma replicate_9: "replicate 9 x = [x, x, x, x, x, x, x, x, x]"
  by (simp add: eval_nat_numeral)

lemma gen1_const: "gen1 seed = (\<lambda>i. 9 / 10)"
  by (simp add: gen1_def fun_eq_iff)

lemma init_world1: "WorldSimulation_init gen1 1 42 (const_env 0 v) = (Inr world1, env1 v)"
  unfolding WorldSimulation_init_def initialize_world_def
  by (simp add: seed_env_at init_region_def str_nat_0 region_names_def
       np_random_uniform_def np_random_env_at np_random_randint_def pick_def
       DQNAgent_init_def randn_env_at map_replicate_const RegionalAgent_init_def add_region_def add_node_def
       TradeNetwork_init_def establish_initial_trades_def ResourcePool_new_def ResourcePool_init_def
       post_init_def world1_def region1_def dqn0_def env1_def gen1_const Let_def)

lemma update_region1: "update_basic_resources region1 = region1_updated"
  by (simp add: update_basic_resources_def region1_def region1_updated_def replenish_def deplete_def
        Let_def py_int_def)

lemma no_event_env_at:
  "15 / 100 < tp i \<Longrightarrow> generate_climatic_event w (env_at tp i j k v) = (Inr None, env_at tp (Suc i) j k v)"
  by (simp add: generate_climatic_event_def np_random_env_at)

lemma state_vector_total: "\<exists>vec. get_state_vector (get_state_dict r) = Inr vec"
  by (simp add: get_state_vector_def get_state_dict_def get_as_dict_def then_r_def dict_item_def)

lemma reward_total:
  "\<exists>x. calculate_reward prev (get_as_dict p) stab pop = Inr x"
  by (simp add: calculate_reward_def get_as_dict_def then_r_def dict_item_def Let_def)

text \<open>A fresh agent explores at every draw below 1, and the loop body then raises.\<close>

lemma agent_step_env_at:
  assumes "tp i < 1" and "pick v 9 = k" and "map_of ACTIONS k = Some (nm, items)"
  shows "agent_step ''region_0'' r (agents world1) cd (env_at tp i j n v)
     = (Some AttributeError, apply_action_effects items r, agents world1, cd,
        env_at tp (Suc i) (Suc j) n v)"
proof -
  obtain vec where vec: "get_state_vector (get_state_dict r) = Inr vec"
    using state_vector_total by blast
  obtain vec' where vec': "get_state_vector (get_state_dict (apply_action_effects items r)) = Inr vec'"
    using state_vector_total by blast
  obtain x where x: "calculate_reward (get_as_dict (resources r))
      (get_as_dict (resources (apply_action_effects items r)))
      (stability (apply_action_effects items r)) (population (apply_action_effects items r)) = Inr x"
    using reward_total by blast
  have ag: "dict_get (agents world1) ''region_0''
      = Inr (RegionalAgent_init ''region_0'' (dqn0 (replicate 9 (9 / 1000))))"
    by (simp add: dict_get_def world1_def)
  have a: "act (dqn (RegionalAgent_init ''region_0'' (dqn0 (replicate 9 (9 / 1000))))) vec True (env_at tp i j n v)
      = (Inr k, env_at tp (Suc i) (Suc j) n v)"
    using assms(1,2)
    by (simp add: act_def np_random_env_at RegionalAgent_init_def dqn0_def random_randint_def py_random_env_at)
  have d: "decide_action (RegionalAgent_init ''region_0'' (dqn0 (replicate 9 (9 / 1000))))
             (get_state_dict r) True (env_at tp i j n v) = (Inr (k, nm), env_at tp (Suc i) (Suc j) n v)"
    using assms(3) by (simp add: decide_action_def vec a dict_get_def then_r_def)
  have da: "dict_get ACTIONS k = Inr (nm, items)"
    using assms(3) by (simp add: dict_get_def)
  show ?thesis
    by (simp add: agent_step_def ag d da Let_def x vec' RegionState_is_critical_def)
qed

text \<open>A cycle without event, on the simulation \<open>world1\<close> with any region \<open>r\<close> in place of
  its own and any event history.\<close>

lemma step_quiet:
  assumes "15 / 100 < tp i" and "tp (Suc i) < 1"
    and "pick v 9 = k" and "map_of ACTIONS k = Some (nm, items)"
  shows "step (world1\<lparr>regions := [(''region_0'', r)], event_history := evh\<rparr>) (env_at tp i j n v)
     = (Inl AttributeError,
        world1\<lparr>regions := [(''region_0'', apply_action_effects items (update_basic_resources r))],
               event_history := evh\<rparr>,
        env_at tp (Suc (Suc i)) (Suc j) (Suc n) v)"
  unfolding step_def
  by (simp add: now_env_at Let_def no_event_env_at [of tp i, OF assms(1)]
        agent_step_env_at [of tp "Suc i", OF assms(2,3,4)])

lemma step_world1:
  assumes "pick v 9 = k" and "map_of ACTIONS k = Some (nm, items)"
  shows "step world1 (env1 v)
     = (Inl AttributeError,
        world1\<lparr>regions := [(''region_0'', apply_action_effects items region1_updated)]\<rparr>,
        env_at (gen1 42) 18 1 1 v)"
proof -
  have w: "world1 = world1\<lparr>regions := [(''region_0'', region1)], event_history := []\<rparr>"
    by (simp add: world1_def)
  have "step (world1\<lparr>regions := [(''region_0'', region1)], event_history := []\<rparr>) (env_at (gen1 42) 16 0 0 v)
     = (Inl AttributeError,
        world1\<lparr>regions := [(''region_0'', apply_action_effects items (update_basic_resources region1))],
               event_history := []\<rparr>,
        env_at (gen1 42) (Suc (Suc 16)) (Suc 0) (Suc 0) v)"
    by (rule step_quiet [of "gen1 42" 16, OF _ _ assms]) (simp_all add: gen1_def)
  then show ?thesis
    using w by (simp add: env1_def update_region1 world1_def)
qed

text \<open>
  C8 (the code does not do this). \<open>step()\<close> should increment the cycle counter by 1 and
  append one cycle report. On the simulation built by
  \<open>WorldSimulation(num_regions=1, seed=42)\<close> it raises \<open>AttributeError\<close> instead; the
  counter and the history are as before the call.
\<close>

theorem step_raises_attribute_error:
  "WorldSimulation_init gen1 1 42 (const_env 0 (1 / 4)) = (Inr world1, env1 (1 / 4)) \<and>
   fst (step world1 (env1 (1 / 4))) = Inl AttributeError \<and>
   current_cycle (fst (snd (step world1 (env1 (1 / 4))))) = current_cycle world1 \<and>
   cycle_history (fst (snd (step world1 (env1 (1 / 4))))) = cycle_history world1"
proof -
  have k: "pick (1 / 4) 9 = 2" by (simp add: pick_def)
  have m: "map_of ACTIONS 2 = Some (''Invest in Water'', [(''water'', 200), (''food'', -50), (''energy'', -50)])"
    by (simp add: ACTIONS_def)
  show ?thesis by (simp add: init_world1 step_world1 [OF k m])
qed

section \<open>Stocks outside their range\<close>

text \<open>\<open>deplete\<close> and \<open>replenish\<close> keep the ledger in range when the amounts are not
  negative.\<close>

lemma deplete_in_range:
  "in_range p \<Longrightarrow> 0 \<le> w \<Longrightarrow> 0 \<le> f \<Longrightarrow> 0 \<le> e \<Longrightarrow> 0 \<le> l \<Longrightarrow> in_range (deplete p w f e l)"
  by (simp add: in_range_def deplete_def)

lemma replenish_in_range:
  "in_range p \<Longrightarrow> 0 \<le> w \<Longrightarrow> 0 \<le> f \<Longrightarrow> 0 \<le> e \<Longrightarrow> 0 \<le> l \<Longrightarrow> in_range (replenish p w f e l)"
  by (simp add: in_range_def replenish_def)

text \<open>
  C1 (the code does not do this). Every stock should stay in \<open>[0, cap]\<close> after every
  mutation. On a region in range with 1900 water, a flood leaves 2100 water under a cap of
  2000, and so does the action ``Invest in Water''; a trade of strength 0.5 between two
  regions in range with no food and full energy leaves the first with \<open>-5\<close> food and the
  second with 2002.5 energy under a cap of 2000; and the first \<open>step\<close> of the simulation
  \<open>world1\<close>, whose region is in range, with the action ``Invest in Water'', leaves the
  region with 2075 water under a cap of 2000.
\<close>

theorem stocks_leave_their_range:
  "in_range (resources region_c0) \<and> in_range (resources region_c1) \<and> in_range (resources region1) \<and>
   water (resources (fst (apply_event flood1 region_c0))) = 2100 \<and>
   max_water (resources (fst (apply_event flood1 region_c0))) = 2000 \<and>
   \<not> in_range (resources (fst (apply_event flood1 region_c0))) \<and>
   map_of ACTIONS 2 = Some (''Invest in Water'', [(''water'', 200), (''food'', -50), (''energy'', -50)]) \<and>
   water (resources (apply_action_effects [(''water'', 200), (''food'', -50), (''energy'', -50)] region_c0)) = 2100 \<and>
   max_water (resources (apply_action_effects [(''water'', 200), (''food'', -50), (''energy'', -50)] region_c0)) = 2000 \<and>
   \<not> in_range (resources (apply_action_effects [(''water'', 200), (''food'', -50), (''energy'', -50)] region_c0)) \<and>
   map (\<lambda>(k, r). (food (resources r), energy (resources r), max_energy (resources r), in_range (resources r)))
     (fst (snd (snd (execute_trade TradeNetwork_init regions_c ''region_0'' ''region_1'' (1 / 2) (const_env 0 0)))))
     = [(-5, 2000, 2000, False), (0, 4005 / 2, 2000, False)] \<and>
   map (\<lambda>(k, r). (water (resources r), max_water (resources r), in_range (resources r)))
     (regions (fst (snd (step world1 (env1 (1 / 4)))))) = [(2075, 2000, False)]"
proof -
  have k: "pick (1 / 4) 9 = 2" by (simp add: pick_def)
  have m: "map_of ACTIONS 2 = Some (''Invest in Water'', [(''water'', 200), (''food'', -50), (''energy'', -50)])"
    by (simp add: ACTIONS_def)
  have i: "in_range (resources region_c0) \<and> in_range (resources region_c1) \<and> in_range (resources region1)"
    by (simp add: in_range_def region_c0_def region_c1_def region1_def RegionState_init_def
          ResourcePool_new_def ResourcePool_init_def post_init_def Let_def)
  have e: "water (resources (fst (apply_event flood1 region_c0))) = 2100 \<and>
           max_water (resources (fst (apply_event flood1 region_c0))) = 2000 \<and>
           \<not> in_range (resources (fst (apply_event flood1 region_c0)))"
    by (simp add: apply_event_def flood1_def region_c0_def RegionState_init_def ResourcePool_new_def
          ResourcePool_init_def post_init_def EVENT_TYPES_def pool_getattr_def pool_setattr_def Let_def
          in_range_def)
  have a: "water (resources (apply_action_effects [(''water'', 200), (''food'', -50), (''energy'', -50)] region_c0)) = 2100 \<and>
           max_water (resources (apply_action_effects [(''water'', 200), (''food'', -50), (''energy'', -50)] region_c0)) = 2000 \<and>
           \<not> in_range (resources (apply_action_effects [(''water'', 200), (''food'', -50), (''energy'', -50)] region_c0))"
    by (simp add: apply_action_effects_def deplete_def region_c0_def RegionState_init_def
          ResourcePool_new_def ResourcePool_init_def post_init_def Let_def in_range_def)
  have t: "map (\<lambda>(k, r). (food (resources r), energy (resources r), max_energy (resources r), in_range (resources r)))
     (fst (snd (snd (execute_trade TradeNetwork_init regions_c ''region_0'' ''region_1'' (1 / 2) (const_env 0 0)))))
     = [(-5, 2000, 2000, False), (0, 4005 / 2, 2000, False)]"
  proof -
    have "dbl (0 - 25) = (0::real) - 25"
      by (subst dbl_exact [where k = 48 and m = "25 * 2 ^ 48"]) simp_all
    moreover have "dbl (0 - 5) = (0::real) - 5"
      by (subst dbl_exact [where k = 50 and m = "5 * 2 ^ 50"]) simp_all
    ultimately have tf: "trade_food 0 (1 / 2) = - 5"
      using trade_food_half [of 0] by simp
    have "dbl (2000 - 20) = (2000::real) - 20"
      by (subst dbl_exact [where k = 42 and m = "1980 * 2 ^ 42"]) simp_all
    moreover have "dbl (2000 + 5 / 2) = (2000::real) + 5 / 2"
      by (subst dbl_exact [where k = 42 and m = "4005 * 2 ^ 41"]) simp_all
    ultimately have te: "trade_energy 2000 (1 / 2) = 4005 / 2"
      using trade_energy_half [of 2000] by simp
    show ?thesis
      by (simp add: regions_c_def execute_trade_two tf te region_c0_def region_c1_def
            RegionState_init_def ResourcePool_new_def ResourcePool_init_def post_init_def Let_def
            in_range_def)
  qed
  have s: "map (\<lambda>(k, r). (water (resources r), max_water (resources r), in_range (resources r)))
     (regions (fst (snd (step world1 (env1 (1 / 4)))))) = [(2075, 2000, False)]"
    by (simp add: step_world1 [OF k m] apply_action_effects_def deplete_def region1_updated_def
          region1_def Let_def in_range_def)
  show ?thesis using m i e a t s by blast
qed

section \<open>The same seed, two different cycles\<close>

text \<open>
  C2 (the code does not do this). Two simulations built with the same seed and region count
  should go through the same cycles. The constructor seeds numpy's generator only; the
  exploring action comes from the \<open>random\<close> module. Two constructions with seed 42 give
  the same simulation and the same state of numpy's generator and of the clock, and then
  the first \<open>step\<close> of both raises and leaves different regions behind, when \<open>random\<close>
  returns 0.25 in one process and 0 in the other.
\<close>

theorem same_seed_different_cycle:
  "WorldSimulation_init gen1 1 42 (const_env 0 (1 / 4)) = (Inr world1, env1 (1 / 4)) \<and>
   WorldSimulation_init gen1 1 42 (const_env 0 0) = (Inr world1, env1 0) \<and>
   np_tape (env1 (1 / 4)) = np_tape (env1 0) \<and> np_pos (env1 (1 / 4)) = np_pos (env1 0) \<and>
   clock (env1 (1 / 4)) = clock (env1 0) \<and> clock_pos (env1 (1 / 4)) = clock_pos (env1 0) \<and>
   fst (step world1 (env1 (1 / 4))) = Inl AttributeError \<and>
   fst (step world1 (env1 0)) = Inl AttributeError \<and>
   regions (fst (snd (step world1 (env1 (1 / 4))))) \<noteq> regions (fst (snd (step world1 (env1 0))))"
proof -
  have k2: "pick (1 / 4) 9 = 2" by (simp add: pick_def)
  have m2: "map_of ACTIONS 2 = Some (''Invest in Water'', [(''water'', 200), (''food'', -50), (''energy'', -50)])"
    by (simp add: ACTIONS_def)
  have k0: "pick 0 9 = 0" by (simp add: pick_def)
  have m0: "map_of ACTIONS 0 = Some (''Invest in Food'', [(''water'', -50), (''food'', 100), (''energy'', -20)])"
    by (simp add: ACTIONS_def)
  have w2: "map (\<lambda>(k, r). water (resources r)) (regions (fst (snd (step world1 (env1 (1 / 4)))))) = [2075]"
    by (simp add: step_world1 [OF k2 m2] apply_action_effects_def deplete_def region1_updated_def
          region1_def Let_def)
  have w0: "map (\<lambda>(k, r). water (resources r)) (regions (fst (snd (step world1 (env1 0))))) = [1825]"
    by (simp add: step_world1 [OF k0 m0] apply_action_effects_def deplete_def region1_updated_def
          region1_def Let_def)
  have ne: "regions (fst (snd (step world1 (env1 (1 / 4))))) \<noteq> regions (fst (snd (step world1 (env1 0))))"
  proof
    assume "regions (fst (snd (step world1 (env1 (1 / 4))))) = regions (fst (snd (step world1 (env1 0))))"
    then have "[2075] = [1825 :: real]" using w2 w0 by simp
    then show False by simp
  qed
  have t: "np_tape (env1 (1 / 4)) = np_tape (env1 0) \<and> np_pos (env1 (1 / 4)) = np_pos (env1 0) \<and>
           clock (env1 (1 / 4)) = clock (env1 0) \<and> clock_pos (env1 (1 / 4)) = clock_pos (env1 0)"
    by (simp add: env1_def env_at_def)
  show ?thesis
    using t ne by (simp add: init_world1 step_world1 [OF k2 m2] step_world1 [OF k0 m0])
qed

section \<open>The exploration rate\<close>

text \<open>Bounds on powers of the decay factor, by repeated squaring on intervals.\<close>

lemma pow_double_le:
  fixes x :: real
  assumes "0 \<le> x" and "x ^ n \<le> u" and "u * u \<le> u'"
  shows "x ^ (2 * n) \<le> u'"
proof -
  have "0 \<le> x ^ n" using assms(1) by simp
  then have "x ^ n * x ^ n \<le> u * u" using assms(2) by (intro mult_mono) auto
  moreover have "x ^ (2 * n) = x ^ n * x ^ n" by (simp add: mult_2 power_add)
  ultimately show ?thesis using assms(3) by simp
qed

lemma pow_double_ge:
  fixes x :: real
  assumes "0 \<le> l" and "l \<le> x ^ n" and "l' \<le> l * l"
  shows "l' \<le> x ^ (2 * n)"
proof -
  have "l * l \<le> x ^ n * x ^ n" using assms(1,2) by (intro mult_mono) auto
  moreover have "x ^ (2 * n) = x ^ n * x ^ n" by (simp add: mult_2 power_add)
  ultimately show ?thesis using assms(3) by simp
qed

lemma pow_add_le:
  fixes x :: real
  assumes "0 \<le> x" and "x ^ m \<le> a" and "x ^ n \<le> b" and "a * b \<le> c"
  shows "x ^ (m + n) \<le> c"
proof -
  have "0 \<le> x ^ m" "0 \<le> x ^ n" using assms(1) by simp_all
  then have "x ^ m * x ^ n \<le> a * b" using assms(2,3) by (intro mult_mono) auto
  then show ?thesis using assms(4) by (simp add: power_add)
qed

lemma pow_add_ge:
  fixes x :: real
  assumes "0 \<le> a" and "0 \<le> b" and "a \<le> x ^ m" and "b \<le> x ^ n" and "c \<le> a * b"
  shows "c \<le> x ^ (m + n)"
proof -
  have "a * b \<le> x ^ m * x ^ n" using assms(1-4) by (intro mult_mono) auto
  then show ?thesis using assms(5) by (simp add: power_add)
qed

lemma decay_power_bounds:
  fixes x :: real
  assumes x: "x = 199 / 200"
  shows "x ^ 919 < 1 / 100" and "1 / 100 < x ^ 918"
proof -
  have x0: "0 \<le> x" using x by simp
  have u1: "x ^ 1 \<le> 199 / 200" using x by simp
  have l1: "199 / 200 \<le> x ^ 1" using x by simp
  have u2: "x ^ 2 \<le> 39601 / 40000" using pow_double_le [OF x0 u1, of "39601 / 40000"] by simp
  have l2: "39601 / 40000 \<le> x ^ 2" using pow_double_ge [OF _ l1, of "39601 / 40000"] by simp
  have u4: "x ^ 4 \<le> 9801495007 / 10000000000" using pow_double_le [OF x0 u2, of "9801495007 / 10000000000"] by simp
  have l4: "4900747503 / 5000000000 \<le> x ^ 4" using pow_double_ge [OF _ l2, of "4900747503 / 5000000000"] by simp
  have u8: "x ^ 8 \<le> 4803465219 / 5000000000" using pow_double_le [OF x0 u4, of "4803465219 / 5000000000"] by simp
  have l8: "1921386087 / 2000000000 \<le> x ^ 8" using pow_double_ge [OF _ l4, of "1921386087 / 2000000000"] by simp
  have u16: "x ^ 16 \<le> 1845862249 / 2000000000" using pow_double_le [OF x0 u8, of "1845862249 / 2000000000"] by simp
  have l16: "4614655619 / 5000000000 \<le> x ^ 16" using pow_double_ge [OF _ l8, of "4614655619 / 5000000000"] by simp
  have u32: "x ^ 32 \<le> 4259009303 / 5000000000" using pow_double_le [OF x0 u16, of "4259009303 / 5000000000"] by simp
  have l32: "266188081 / 312500000 \<le> x ^ 32" using pow_double_ge [OF _ l16, of "266188081 / 312500000"] by simp
  have u64: "x ^ 64 \<le> 3627832049 / 5000000000" using pow_double_le [OF x0 u32, of "3627832049 / 5000000000"] by simp
  have l64: "7255664073 / 10000000000 \<le> x ^ 64" using pow_double_ge [OF _ l32, of "7255664073 / 10000000000"] by simp
  have u128: "x ^ 128 \<le> 5264466151 / 10000000000" using pow_double_le [OF x0 u64, of "5264466151 / 10000000000"] by simp
  have l128: "2632233057 / 5000000000 \<le> x ^ 128" using pow_double_ge [OF _ l64, of "2632233057 / 5000000000"] by simp
  have u256: "x ^ 256 \<le> 1385730193 / 5000000000" using pow_double_le [OF x0 u128, of "1385730193 / 5000000000"] by simp
  have l256: "1385730173 / 5000000000 \<le> x ^ 256" using pow_double_ge [OF _ l128, of "1385730173 / 5000000000"] by simp
  have u512: "x ^ 512 \<le> 192024817 / 2500000000" using pow_double_le [OF x0 u256, of "192024817 / 2500000000"] by simp
  have l512: "192024811 / 2500000000 \<le> x ^ 512" using pow_double_ge [OF _ l256, of "192024811 / 2500000000"] by simp
  have us768: "x ^ 768 \<le> 21287567 / 1000000000" using pow_add_le [OF x0 u512 u256, of "21287567 / 1000000000"] by simp
  have us896: "x ^ 896 \<le> 28016919 / 2500000000" using pow_add_le [OF x0 us768 u128, of "28016919 / 2500000000"] by simp
  have us912: "x ^ 912 \<le> 103430747 / 10000000000" using pow_add_le [OF x0 us896 u16, of "103430747 / 10000000000"] by simp
  have us916: "x ^ 916 \<le> 25344399 / 2500000000" using pow_add_le [OF x0 us912 u4, of "25344399 / 2500000000"] by simp
  have us918: "x ^ 918 \<le> 20073271 / 2000000000" using pow_add_le [OF x0 us916 u2, of "20073271 / 2000000000"] by simp
  have us919: "x ^ 919 \<le> 24966131 / 2500000000" using pow_add_le [OF x0 us918 u1, of "24966131 / 2500000000"] by simp
  have ls768: "212875659 / 10000000000 \<le> x ^ 768" using pow_add_ge [OF _ _ l512 l256, of "212875659 / 10000000000"] by simp
  have ls896: "112067669 / 10000000000 \<le> x ^ 896" using pow_add_ge [OF _ _ ls768 l128, of "112067669 / 10000000000"] by simp
  have ls912: "103430739 / 10000000000 \<le> x ^ 912" using pow_add_ge [OF _ _ ls896 l16, of "103430739 / 10000000000"] by simp
  have ls916: "101377587 / 10000000000 \<le> x ^ 916" using pow_add_ge [OF _ _ ls912 l4, of "101377587 / 10000000000"] by simp
  have ls918: "20073269 / 2000000000 \<le> x ^ 918" using pow_add_ge [OF _ _ ls916 l2, of "20073269 / 2000000000"] by simp
  show "x ^ 919 < 1 / 100" using us919 by simp
  show "1 / 100 < x ^ 918" using ls918 by simp
qed


text \<open>What a sample holds, and what \<open>replay\<close> changes.\<close>

lemma pick_range: "0 < n \<Longrightarrow> 0 \<le> pick u n \<and> pick u n < n"
  by (simp add: pick_def)

lemma pick_index: "xs \<noteq> [] \<Longrightarrow> nat (pick u (int (length xs))) < length xs"
  using pick_range [of "int (length xs)" u] by (simp add: nat_less_iff)

lemma draw_distinct_subset: "set (fst (draw_distinct rnd xs k s)) \<subseteq> set xs"
proof (induction k arbitrary: xs s)
  case 0
  then show ?case by simp
next
  case (Suc k)
  show ?case
  proof (cases "xs = []")
    case True
    then show ?thesis by simp
  next
    case False
    obtain u s' where r: "rnd s = (u, s')" by (cases "rnd s")
    define i where "i = nat (pick u (int (length xs)))"
    have i: "i < length xs" using False pick_index [of xs u] by (simp add: i_def)
    obtain rest s'' where d: "draw_distinct rnd (take i xs @ drop (Suc i) xs) k s' = (rest, s'')"
      by (cases "draw_distinct rnd (take i xs @ drop (Suc i) xs) k s'")
    have "set rest \<subseteq> set (take i xs @ drop (Suc i) xs)"
      using Suc.IH [of "take i xs @ drop (Suc i) xs" s'] d by simp
    also have "\<dots> \<subseteq> set xs"
      using set_take_subset [of i xs] set_drop_subset [of "Suc i" xs] by auto
    finally have "set rest \<subseteq> set xs" .
    moreover have "xs ! i \<in> set xs" using i by simp
    ultimately show ?thesis using False r d by (simp add: i_def Let_def)
  qed
qed

lemma draw_distinct_length:
  "k \<le> length xs \<Longrightarrow> length (fst (draw_distinct rnd xs k s)) = k"
proof (induction k arbitrary: xs s)
  case 0
  then show ?case by simp
next
  case (Suc k)
  then have ne: "xs \<noteq> []" by auto
  obtain u s' where r: "rnd s = (u, s')" by (cases "rnd s")
  define i where "i = nat (pick u (int (length xs)))"
  have i: "i < length xs" using ne pick_index [of xs u] by (simp add: i_def)
  obtain rest s'' where d: "draw_distinct rnd (take i xs @ drop (Suc i) xs) k s' = (rest, s'')"
    by (cases "draw_distinct rnd (take i xs @ drop (Suc i) xs) k s'")
  have "k \<le> length (take i xs @ drop (Suc i) xs)" using Suc.prems i by simp
  from Suc.IH [OF this, of s'] d have "length rest = k" by simp
  then show ?case using ne r d by (simp add: i_def Let_def)
qed

text \<open>The fields replay_batch leaves alone.\<close>

lemma replay_batch_frame:
  "replay_batch a batch acc = (r, a', acc') \<Longrightarrow>
     a' = a\<lparr>q_values := q_values a'\<rparr> \<and> length (q_values a') = length (q_values a)"
proof (induction a batch acc arbitrary: r a' acc' rule: replay_batch.induct)
  case (1 a total_loss)
  then show ?case by simp
next
  case (2 a state action reward next_state fin batch total_loss)
  show ?case
  proof (cases "if fin then Inr reward
            else then_r (np_max (q_estimates a next_state)) (\<lambda>next_q. Inr (reward + gamma a * next_q))")
    case (Inl e)
    then show ?thesis using "2.prems" by simp
  next
    case (Inr target)
    show ?thesis
    proof (cases "array_index (q_values a) action")
      case (Inl e)
      then show ?thesis using "2.prems" Inr by simp
    next
      case (Inr i)
      let ?a1 = "a\<lparr>q_values := (q_values a)[i := q_values a ! i + learning_rate a * (target - q_values a ! i)]\<rparr>"
      have step: "replay_batch ?a1 batch (total_loss + \<bar>target - q_values a ! i\<bar>) = (r, a', acc')"
        using "2.prems" \<open>_ = Inr target\<close> Inr by (simp add: Let_def)
      have ih: "a' = ?a1\<lparr>q_values := q_values a'\<rparr> \<and> length (q_values a') = length (q_values ?a1)"
        using "2.IH" [OF \<open>_ = Inr target\<close> Inr refl refl refl step] .
      then show ?thesis by (metis (no_types, lifting) DQNAgent.surjective DQNAgent.update_convs(8) length_list_update DQNAgent.select_convs(8))
    qed
  qed
qed


lemma replay_batch_terminal:
  assumes "set batch \<subseteq> {terminal0}" and "q_values a \<noteq> []"
  shows "fst (replay_batch a batch acc) = None"
  using assms
proof (induction batch arbitrary: a acc)
  case Nil
  then show ?case by simp
next
  case (Cons t batch)
  then have t: "t = terminal0" by simp
  let ?a1 = "a\<lparr>q_values := (q_values a)[0 := q_values a ! 0 + learning_rate a * (0 - q_values a ! 0)]\<rparr>"
  have idx: "array_index (q_values a) 0 = Inr 0"
    using Cons.prems(2) by (simp add: array_index_def Let_def)
  have "q_values ?a1 \<noteq> []" using Cons.prems(2) by simp
  moreover have "set batch \<subseteq> {terminal0}" using Cons.prems(1) by simp
  ultimately have "fst (replay_batch ?a1 batch (acc + \<bar>0 - q_values a ! 0\<bar>)) = None"
    using Cons.IH by blast
  then show ?case using t idx by (simp add: terminal0_def Let_def)
qed

lemma replay_frame:
  assumes "replay a b s = (res, a', s')"
  shows "memory a' = memory a \<and> epsilon_min a' = epsilon_min a \<and> epsilon_decay a' = epsilon_decay a \<and>
         length (q_values a') = length (q_values a) \<and>
         (epsilon a' = epsilon a \<or> (epsilon_min a < epsilon a \<and> epsilon a' = epsilon a * epsilon_decay a))"
proof (cases "int (length (memory a)) < b")
  case True
  then show ?thesis using assms by (simp add: replay_def)
next
  case False
  obtain rb s1 where rs: "random_sample (memory a) b s = (rb, s1)" by (cases "random_sample (memory a) b s")
  show ?thesis
  proof (cases rb)
    case (Inl e)
    then show ?thesis using assms False rs by (simp add: replay_def)
  next
    case (Inr batch)
    obtain r a1 tot where b: "replay_batch a batch 0 = (r, a1, tot)" by (cases "replay_batch a batch 0")
    from replay_batch_frame [OF b]
    have f: "a1 = a\<lparr>q_values := q_values a1\<rparr>" "length (q_values a1) = length (q_values a)" by simp_all
    have sel: "memory a1 = memory a" "epsilon_min a1 = epsilon_min a" "epsilon_decay a1 = epsilon_decay a"
      "epsilon a1 = epsilon a"
      by (subst f(1), simp)+
    show ?thesis
    proof (cases r)
      case (Some e)
      then show ?thesis using assms False rs Inr b sel f(2) by (simp add: replay_def)
    next
      case None
      then show ?thesis using assms False rs Inr b sel f(2)
        by (auto simp: replay_def Let_def split: if_splits)
    qed
  qed
qed

lemma replay_epsilon_dqn:
  assumes "memory a = replicate 32 terminal0" and "q_values a \<noteq> []"
  shows "(\<exists>avg. fst (replay a 32 s) = Inr avg) \<and>
         memory (fst (snd (replay a 32 s))) = memory a \<and>
         length (q_values (fst (snd (replay a 32 s)))) = length (q_values a) \<and>
         epsilon_min (fst (snd (replay a 32 s))) = epsilon_min a \<and>
         epsilon_decay (fst (snd (replay a 32 s))) = epsilon_decay a \<and>
         epsilon (fst (snd (replay a 32 s))) =
           (if epsilon_min a < epsilon a then epsilon a * epsilon_decay a else epsilon a)"
proof -
  obtain xs s1 where d: "draw_distinct py_random_random (memory a) (nat 32) s = (xs, s1)"
    by (cases "draw_distinct py_random_random (memory a) (nat 32) s")
  have rs: "random_sample (memory a) 32 s = (Inr xs, s1)"
    using d assms(1) by (simp add: random_sample_def)
  have "set xs \<subseteq> set (memory a)" using draw_distinct_subset [of py_random_random "memory a" "nat 32" s] d by simp
  then have sub: "set xs \<subseteq> {terminal0}" using assms(1) by auto
  obtain r a1 tot where b: "replay_batch a xs 0 = (r, a1, tot)" by (cases "replay_batch a xs 0")
  have r: "r = None" using replay_batch_terminal [OF sub assms(2), of 0] b by simp
  from replay_batch_frame [OF b]
  have f: "a1 = a\<lparr>q_values := q_values a1\<rparr>" by simp
  have sel: "epsilon_min a1 = epsilon_min a" "epsilon_decay a1 = epsilon_decay a" "epsilon a1 = epsilon a"
    "memory a1 = memory a"
    by (subst f, simp)+
  have len: "length (q_values a1) = length (q_values a)" using replay_batch_frame [OF b] by simp
  have ex: "\<exists>avg. tot = avg * 32" by (rule exI [of _ "tot / 32"]) simp
  show ?thesis using assms(1) rs b r sel len ex by (simp add: replay_def Let_def)
qed


lemma replay_n_epsilon:
  fixes x :: real
  assumes "memory a = replicate 32 terminal0" and "q_values a \<noteq> []"
    and "epsilon_decay a = x" and "epsilon_min a = 1 / 100" and "x = 199 / 200"
    and "epsilon a = x ^ j" and "j + k \<le> 919"
  shows "epsilon (fst (replay_n k a 32 s)) = x ^ (j + k) \<and>
         epsilon_min (fst (replay_n k a 32 s)) = 1 / 100"
  using assms
proof (induction k arbitrary: a s j)
  case 0
  then show ?case by simp
next
  case (Suc k)
  obtain res a' s' where r: "replay a 32 s = (res, a', s')" by (cases "replay a 32 s") auto
  have j: "j \<le> 918" using Suc.prems(7) by simp
  have "x ^ 918 \<le> x ^ j" using j Suc.prems(5) by (intro power_decreasing) auto
  then have gt: "epsilon_min a < epsilon a"
    using decay_power_bounds(2) [OF Suc.prems(5)] Suc.prems(4,6) by simp
  from replay_epsilon_dqn [OF Suc.prems(1,2), of s] r gt
  have a': "memory a' = replicate 32 terminal0" "q_values a' \<noteq> []" "epsilon_decay a' = x"
    "epsilon_min a' = 1 / 100" "epsilon a' = x ^ Suc j"
    using Suc.prems(1,2,3,4,6) by auto
  have "Suc j + k \<le> 919" using Suc.prems(7) by simp
  from Suc.IH [OF a'(1,2,3,4) Suc.prems(5) a'(5) this, of s'] show ?case using r by simp
qed

lemma remember_all_memory:
  "length (memory a) + length ts \<le> 2000 \<Longrightarrow> memory (remember_all a ts) = memory a @ ts"
  by (induction ts arbitrary: a) (auto simp: remember_def)

lemma remember_all_frame:
  "q_values (remember_all a ts) = q_values a \<and> epsilon (remember_all a ts) = epsilon a \<and>
   epsilon_decay (remember_all a ts) = epsilon_decay a \<and> epsilon_min (remember_all a ts) = epsilon_min a"
  by (induction ts arbitrary: a) (auto simp: remember_def)


text \<open>Over the replay calls the exploration rate never increases, and it stays at or
  above \<open>epsilon_min \<times> epsilon_decay\<close>.\<close>

lemma replay_epsilon_nonincreasing:
  assumes "replay a b s = (res, a', s')" and "0 \<le> epsilon a" and "epsilon_decay a \<le> 1"
  shows "epsilon a' \<le> epsilon a"
proof -
  have "epsilon a * epsilon_decay a \<le> epsilon a * 1"
    using assms(2,3) by (intro mult_left_mono) auto
  then show ?thesis using replay_frame [OF assms(1)] by auto
qed

lemma replay_epsilon_lower_bound:
  assumes "replay a b s = (res, a', s')" and "0 \<le> epsilon_decay a"
    and "epsilon_min a * epsilon_decay a \<le> epsilon a"
  shows "epsilon_min a' * epsilon_decay a' \<le> epsilon a'"
proof -
  have "epsilon_min a < epsilon a \<Longrightarrow> epsilon_min a * epsilon_decay a \<le> epsilon a * epsilon_decay a"
    using assms(2) by (intro mult_right_mono) auto
  then show ?thesis using replay_frame [OF assms(1)] assms(3) by auto
qed

text \<open>
  C3 (the code does not do this). The exploration rate starts at 1.0 and should never fall
  below \<open>epsilon_min = 0.01\<close>. A fresh learner that has remembered 32 transitions and
  replayed 919 times has the exploration rate \<open>0.995 ^ 919\<close>, which is below 0.01: the
  test \<open>epsilon > epsilon_min\<close> lets the last decay start just above the floor and end
  under it.
\<close>

theorem epsilon_below_min:
  "epsilon (dqn0 qs) = 1 \<and> length (memory dqn32) = 32 \<and>
   epsilon (fst (replay_n 919 dqn32 32 s)) < epsilon_min (fst (replay_n 919 dqn32 32 s))"
proof -
  have m: "memory dqn32 = replicate 32 terminal0"
    unfolding dqn32_def by (subst remember_all_memory) (simp_all add: dqn0_def)
  have q: "q_values dqn32 \<noteq> []" by (simp add: dqn32_def remember_all_frame dqn0_def)
  have d: "epsilon_decay dqn32 = 199 / 200" by (simp add: dqn32_def remember_all_frame dqn0_def)
  have mn: "epsilon_min dqn32 = 1 / 100" by (simp add: dqn32_def remember_all_frame dqn0_def)
  have e: "epsilon dqn32 = (199 / 200) ^ 0" by (simp add: dqn32_def remember_all_frame dqn0_def)
  from replay_n_epsilon [OF m q d mn refl e, of 919 s]
  have "epsilon (fst (replay_n 919 dqn32 32 s)) = (199 / 200) ^ 919"
    "epsilon_min (fst (replay_n 919 dqn32 32 s)) = 1 / 100" by simp_all
  then show ?thesis using decay_power_bounds(1) [OF refl] m by (simp add: dqn0_def)
qed


section \<open>The population\<close>

text \<open>The population rules keep a population non-negative when the factor is.\<close>

lemma py_int_nonneg: "0 \<le> x \<Longrightarrow> 0 \<le> py_int x"
  by (simp add: py_int_def)

lemma update_basic_resources_population:
  assumes "0 \<le> population r" and "- 1 \<le> growth_rate r"
  shows "0 \<le> population (update_basic_resources r)"
proof -
  have "0 \<le> real_of_int (population r) * (1 + growth_rate r)" using assms by simp
  moreover have "0 \<le> real_of_int (population r) * (98 / 100)" using assms by simp
  ultimately show ?thesis
    using assms(1) by (simp add: update_basic_resources_def Let_def py_int_nonneg)
qed

lemma apply_event_population:
  assumes "0 \<le> population r" and "severity ev \<le> 10"
  shows "0 \<le> population (fst (apply_event ev r))"
proof -
  have "0 \<le> real_of_int (population r) * (1 - 1 / 10 * severity ev)" using assms by simp
  then have p: "0 \<le> py_int (real_of_int (population r) * (1 - 1 / 10 * severity ev))"
    by (rule py_int_nonneg)
  show ?thesis
    using assms(1) p
    by (auto simp: apply_event_def EVENT_TYPES_def pool_getattr_def Let_def)
qed

lemma apply_action_effects_population:
  assumes "map_of ACTIONS k = Some (nm, items)" and "0 \<le> population r"
  shows "0 \<le> population (apply_action_effects items r)"
proof -
  have "0 \<le> real_of_int (population r) * (1 + 5 / 100)" using assms(2) by simp
  then have p: "0 \<le> py_int (real_of_int (population r) * (1 + 5 / 100))"
    by (rule py_int_nonneg)
  show ?thesis
    using assms p
    by (auto simp: ACTIONS_def apply_action_effects_def Let_def split: if_splits)
qed

lemma agent_step_population:
  assumes "agent_step rid r ags cd s = (e, r', ags', cd', s')" and "0 \<le> population r"
  shows "0 \<le> population r'"
  using assms apply_action_effects_population [of _ _ _ r]
  by (auto simp: agent_step_def dict_get_def Let_def split: sum.splits prod.splits option.splits)

lemma agents_loop_population:
  assumes "list_all (\<lambda>(rid, r). 0 \<le> population r) regs"
  shows "list_all (\<lambda>(rid, r). 0 \<le> population r) (fst (snd (agents_loop regs ags cd s)))"
  using assms
proof (induction regs arbitrary: ags cd s)
  case Nil
  then show ?case by simp
next
  case (Cons p regs)
  obtain rid r where p: "p = (rid, r)" by (cases p)
  obtain e r' ags' cd' s' where a: "agent_step rid r ags cd s = (e, r', ags', cd', s')"
    by (cases "agent_step rid r ags cd s") auto
  have r': "0 \<le> population r'" using agent_step_population [OF a] Cons.prems p by simp
  have rest: "list_all (\<lambda>(rid, r). 0 \<le> population r) regs" using Cons.prems by simp
  show ?case
  proof (cases e)
    case (Some err)
    then show ?thesis using p a r' rest by simp
  next
    case None
    obtain res rest' ags'' cd'' s'' where l: "agents_loop regs ags' cd' s' = (res, rest', ags'', cd'', s'')"
      by (cases "agents_loop regs ags' cd' s'") auto
    have "list_all (\<lambda>(rid, r). 0 \<le> population r) rest'"
      using Cons.IH [OF rest, of ags' cd' s'] l by simp
    then show ?thesis using p a r' None l by simp
  qed
qed



text \<open>The draws of numpy leave the stream as it is; the severity of a generated event is
  0.5 plus a unit draw.\<close>

lemma draw_distinct_np_tape:
  "np_tape (snd (draw_distinct np_random_random xs k s)) = np_tape s \<and>
   np_pos s \<le> np_pos (snd (draw_distinct np_random_random xs k s))"
proof (induction k arbitrary: xs s)
  case 0
  then show ?case by simp
next
  case (Suc k)
  show ?case
  proof (cases "xs = []")
    case True
    then show ?thesis by simp
  next
    case False
    let ?s' = "s\<lparr>np_pos := Suc (np_pos s)\<rparr>"
    let ?i = "nat (pick (np_tape s (np_pos s)) (int (length xs)))"
    obtain rest s'' where d: "draw_distinct np_random_random (take ?i xs @ drop (Suc ?i) xs) k ?s' = (rest, s'')"
      by (cases "draw_distinct np_random_random (take ?i xs @ drop (Suc ?i) xs) k ?s'")
    have "np_tape s'' = np_tape ?s' \<and> np_pos ?s' \<le> np_pos s''"
      using Suc.IH [of "take ?i xs @ drop (Suc ?i) xs" ?s'] d by simp
    moreover have "np_random_random s = (np_tape s (np_pos s), ?s')"
      by (simp add: np_random_random_def)
    ultimately show ?thesis using False d by (simp add: Let_def)
  qed
qed

lemma np_random_choice_distinct_np_tape:
  assumes "np_random_choice_distinct xs n t = (r, t')"
  shows "np_tape t' = np_tape t \<and> np_pos t \<le> np_pos t'"
proof -
  obtain ys t'' where d: "draw_distinct np_random_random xs (nat n) t = (ys, t'')"
    by (cases "draw_distinct np_random_random xs (nat n) t")
  then show ?thesis
    using draw_distinct_np_tape [of xs "nat n" t] assms
    by (auto simp: np_random_choice_distinct_def split: if_splits)
qed

text \<open>The severity of a generated event is 0.5 plus a cell of the stream that was still to
  be read when the generation began.\<close>

lemma generate_climatic_event_severity:
  assumes "generate_climatic_event w s = (Inr (Some ev), s')"
  shows "\<exists>i. np_pos s \<le> i \<and> severity ev = 1 / 2 + np_tape s i"
proof -
  obtain u s1 where r1: "np_random_random s = (u, s1)" by (cases "np_random_random s")
  have s1: "np_tape s1 = np_tape s" "np_pos s \<le> np_pos s1"
    using r1 by (auto simp: np_random_random_def)
  obtain c s2 where r2: "np_random_choice (map fst EVENT_TYPES) s1 = (c, s2)"
    by (cases "np_random_choice (map fst EVENT_TYPES) s1")
  have s2: "np_tape s2 = np_tape s1" "np_pos s1 \<le> np_pos s2"
    using r2 by (auto simp: np_random_choice_def np_random_random_def split: if_splits)
  obtain n s3 where r3: "np_random_randint 1 (max 2 (num_regions w div 2)) s2 = (n, s3)"
    by (cases "np_random_randint 1 (max 2 (num_regions w div 2)) s2")
  have s3: "np_tape s3 = np_tape s2" "np_pos s2 \<le> np_pos s3"
    using r3 by (auto simp: np_random_randint_def np_random_random_def split: if_splits)
  show ?thesis
  proof (cases "15 / 100 < u")
    case True
    then show ?thesis using assms r1 by (simp add: generate_climatic_event_def)
  next
    case False
    show ?thesis
    proof (cases c)
      case (Inl e)
      then show ?thesis using assms r1 r2 False by (simp add: generate_climatic_event_def)
    next
      case et: (Inr et)
      show ?thesis
      proof (cases n)
        case (Inl e)
        then show ?thesis using assms r1 r2 r3 False et by (simp add: generate_climatic_event_def)
      next
        case na: (Inr num_affected)
        obtain af s4 where r4: "np_random_choice_distinct (map fst (regions w)) num_affected s3 = (af, s4)"
          by (cases "np_random_choice_distinct (map fst (regions w)) num_affected s3")
        have s4: "np_tape s4 = np_tape s3" "np_pos s3 \<le> np_pos s4"
          using np_random_choice_distinct_np_tape [OF r4] by simp_all
        show ?thesis
        proof (cases af)
          case (Inl e)
          then show ?thesis
            using assms r1 r2 r3 r4 False et na by (simp add: generate_climatic_event_def)
        next
          case (Inr affected)
          have "severity ev = 1 / 2 + np_tape s4 (np_pos s4)"
            using assms r1 r2 r3 r4 False et na Inr
            by (auto simp: generate_climatic_event_def np_random_uniform_def np_random_random_def
                  ClimaticEvent_init_def now_def)
          moreover have "np_tape s4 = np_tape s" using s1 s2 s3 s4 by simp
          moreover have "np_pos s \<le> np_pos s4" using s1 s2 s3 s4 by simp
          ultimately show ?thesis by auto
        qed
      qed
    qed
  qed
qed

lemma step_without_regions:
  "regions w = [] \<Longrightarrow> regions (fst (snd (step w s))) = []"
  by (auto simp: step_def Let_def split: prod.splits sum.splits option.splits)


text \<open>
  C4 (amended). A \<open>step()\<close> call made when every region has a non-negative population and
  a growth rate of at least \<open>-1\<close>, the draws numpy has still to make being in \<open>[0, 1)\<close>,
  leaves every region with a non-negative population, whether the call returns or raises.
  (What numpy drew before the call, the normal deviates of the construction included, does
  not matter.)
\<close>

theorem step_keeps_population_nonneg:
  assumes "list_all (\<lambda>(rid, r). 0 \<le> population r \<and> - 1 \<le> growth_rate r) (regions w)"
    and "\<forall>i. np_pos s \<le> i \<longrightarrow> 0 \<le> np_tape s i \<and> np_tape s i < 1"
  shows "list_all (\<lambda>(rid, r). 0 \<le> population r) (regions (fst (snd (step w s))))"
proof (cases "regions w = []")
  case True
  then show ?thesis by (simp add: step_without_regions)
next
  case False
  obtain t s0 where t: "now s = (t, s0)" by (cases "now s")
  have s0: "np_tape s0 = np_tape s" "np_pos s0 = np_pos s" using t by (auto simp: now_def)
  let ?cd = "\<lparr>cd_cycle = current_cycle w, cd_timestamp = t, cd_regions = [], cd_events = [], cd_actions = []\<rparr>"
  let ?w1 = "w\<lparr>regions := map (\<lambda>(rid, region). (rid, update_basic_resources region)) (regions w)\<rparr>"
  have p1: "list_all (\<lambda>(rid, r). 0 \<le> population r) (regions ?w1)"
    using assms(1) by (auto simp: list_all_iff update_basic_resources_population)
  obtain r1 s1 where g: "generate_climatic_event ?w1 s0 = (r1, s1)"
    by (cases "generate_climatic_event ?w1 s0")
  show ?thesis
  proof (cases r1)
    case (Inl e)
    then show ?thesis using t g p1 by (simp add: step_def Let_def)
  next
    case (Inr event)
    show ?thesis
    proof (cases event)
      case None
      from agents_loop_raises [of "regions ?w1" "agents ?w1" ?cd s1] False
      obtain e regs3 ags3 cd3 s3 where
        l: "agents_loop (regions ?w1) (agents ?w1) ?cd s1 = (Some e, regs3, ags3, cd3, s3)"
        by fastforce
      have "list_all (\<lambda>(rid, r). 0 \<le> population r) regs3"
        using agents_loop_population [OF p1, of "agents ?w1" ?cd s1] l by simp
      then show ?thesis using t g Inr None l by (simp add: step_def Let_def)
    next
      case (Some ev)
      let ?w2 = "?w1\<lparr>event_history := event_history ?w1 @ [ev],
                     regions := map (\<lambda>(rid, region). (rid, fst (apply_event ev region))) (regions ?w1)\<rparr>"
      let ?cd2 = "?cd\<lparr>cd_events := cd_events ?cd @ [(event_type ev, affected_regions ev, severity ev)]\<rparr>"
      from generate_climatic_event_severity [of ?w1 s0 ev s1] g Inr Some
      obtain i where i: "np_pos s0 \<le> i" "severity ev = 1 / 2 + np_tape s0 i" by auto
      have "np_tape s i < 1" using assms(2) i(1) s0(2) by simp
      then have sev: "severity ev \<le> 10" using i(2) s0(1) by simp
      have p2: "list_all (\<lambda>(rid, r). 0 \<le> population r) (regions ?w2)"
        using p1 sev by (auto simp: list_all_iff apply_event_population)
      from agents_loop_raises [of "regions ?w2" "agents ?w2" ?cd2 s1] False
      obtain e regs3 ags3 cd3 s3 where
        l: "agents_loop (regions ?w2) (agents ?w2) ?cd2 s1 = (Some e, regs3, ags3, cd3, s3)"
        by fastforce
      have "list_all (\<lambda>(rid, r). 0 \<le> population r) regs3"
        using agents_loop_population [OF p2, of "agents ?w2" ?cd2 s1] l by simp
      then show ?thesis using t g Inr Some l by (simp add: step_def Let_def)
    qed
  qed
qed


text \<open>The simulation built on \<open>gen3\<close>, whose normal deviates are \<open>-0.5\<close>.\<close>

lemma init_world3: "WorldSimulation_init gen3 1 42 (const_env 0 v) = (Inr world3, env_at (gen3 42) 16 0 0 v)"
  unfolding WorldSimulation_init_def initialize_world_def
  by (simp add: seed_env_at init_region_def str_nat_0 region_names_def
       np_random_uniform_def np_random_env_at np_random_randint_def pick_def
       DQNAgent_init_def randn_env_at RegionalAgent_init_def add_region_def add_node_def
       TradeNetwork_init_def establish_initial_trades_def ResourcePool_new_def ResourcePool_init_def
       post_init_def world3_def world1_def region1_def dqn0_def gen3_def Let_def
       upt_conv_Cons replicate_9)

theorem step_keeps_population_nonneg_witness:
  "WorldSimulation_init gen3 1 42 (const_env 0 (1 / 4)) = (Inr world3, env3) \<and>
   np_tape env3 7 = - (1 / 2) \<and>
   list_all (\<lambda>(rid, r). 0 \<le> population r \<and> - 1 \<le> growth_rate r) (regions world3) \<and>
   (\<forall>i. 0 \<le> np_tape env3 (np_pos env3 + i) \<and> np_tape env3 (np_pos env3 + i) < 1) \<and>
   list_all (\<lambda>(rid, r). 0 \<le> population r) (regions (fst (snd (step world3 env3))))"
proof -
  have h1: "list_all (\<lambda>(rid, r). 0 \<le> population r \<and> - 1 \<le> growth_rate r) (regions world3)"
    by (simp add: world3_def world1_def region1_def)
  have h2: "\<forall>i. np_pos env3 \<le> i \<longrightarrow> 0 \<le> np_tape env3 i \<and> np_tape env3 i < 1"
    by (simp add: env3_def env_at_def gen3_def)
  have c: "np_tape env3 7 = - (1 / 2)"
    by (simp add: env3_def env_at_def gen3_def)
  have h3: "\<forall>i. 0 \<le> np_tape env3 (np_pos env3 + i) \<and> np_tape env3 (np_pos env3 + i) < 1"
    by (simp add: env3_def env_at_def gen3_def)
  from step_keeps_population_nonneg [OF h1 h2] h1 h3 c init_world3 [of "1 / 4"]
  show ?thesis by (simp add: env3_def)
qed

section \<open>A negative population\<close>

text \<open>Fifty-one cycles with a cold snap and the action ``Conserve Resources'': the food
  stays at 800 and the population at 110, between the thresholds of growth and shrinking,
  while the growth rate goes down by 0.02 per cycle, without a floor.\<close>

lemma init_world2: "WorldSimulation_init gen2 1 42 (const_env 0 (2 / 3)) = (Inr world2, env2)"
  unfolding WorldSimulation_init_def initialize_world_def
  by (simp add: seed_env_at init_region_def str_nat_0 region_names_def
       np_random_uniform_def np_random_env_at np_random_randint_def pick_def
       DQNAgent_init_def randn_env_at RegionalAgent_init_def add_region_def add_node_def
       TradeNetwork_init_def establish_initial_trades_def ResourcePool_new_def ResourcePool_init_def
       post_init_def world2_def world1_def region2_def region1_def dqn0_def env2_def gen2_def Let_def
       upt_conv_Cons replicate_9)

lemma coldsnap_env_at:
  assumes "\<not> 15 / 100 < tp i" and "pick (tp (Suc i)) 6 = 3" and "tp (Suc (Suc (Suc (Suc i)))) = 4 / 25"
    and "num_regions w = 1" and "map fst (regions w) = [''region_0'']"
  shows "generate_climatic_event w (env_at tp i j k v)
     = (Inr (Some coldsnap2), env_at tp (Suc (Suc (Suc (Suc (Suc i))))) j (Suc k) v)"
  using assms
  by (simp add: generate_climatic_event_def np_random_env_at np_random_choice_def EVENT_TYPES_def
        np_random_randint_def np_random_choice_distinct_def np_random_uniform_def
        ClimaticEvent_init_def now_env_at coldsnap2_def pick_def [of _ 1] numeral_2_eq_2 [symmetric] Let_def)


lemma step_coldsnap:
  assumes "\<not> 15 / 100 < tp i" and "pick (tp (Suc i)) 6 = 3" and "tp (Suc (Suc (Suc (Suc i)))) = 4 / 25"
    and "tp (Suc (Suc (Suc (Suc (Suc i))))) < 1"
    and "pick v 9 = k" and "map_of ACTIONS k = Some (nm, items)"
  shows "step (world1\<lparr>regions := [(''region_0'', r)], event_history := evh\<rparr>) (env_at tp i j n v)
     = (Inl AttributeError,
        world1\<lparr>regions := [(''region_0'',
                   apply_action_effects items (fst (apply_event coldsnap2 (update_basic_resources r))))],
               event_history := evh @ [coldsnap2]\<rparr>,
        env_at tp (Suc (Suc (Suc (Suc (Suc (Suc i)))))) (Suc j) (Suc (Suc n)) v)"
proof -
  have n1: "num_regions world1 = 1" by (simp add: world1_def)
  show ?thesis
    unfolding step_def
    by (simp add: now_env_at Let_def n1
          coldsnap_env_at [of tp i, OF assms(1,2,3)]
          agent_step_env_at [of tp "Suc (Suc (Suc (Suc (Suc i))))", OF assms(4,5,6)])
qed

lemma gen2_event_cycle:
  assumes "m < 51"
  shows "\<not> 15 / 100 < gen2 42 (16 + 6 * m)"
    and "pick (gen2 42 (Suc (16 + 6 * m))) 6 = 3"
    and "gen2 42 (Suc (Suc (Suc (Suc (16 + 6 * m))))) = 4 / 25"
    and "gen2 42 (Suc (Suc (Suc (Suc (Suc (16 + 6 * m)))))) < 1"
  using assms by (simp_all add: gen2_def pick_def)

lemma conserve: "pick (2 / 3) 9 = 6" "map_of ACTIONS 6 = Some (''Conserve Resources'', conserve_items)"
  by (simp_all add: pick_def ACTIONS_def conserve_items_def)

lemma step_event_cycle:
  assumes "m < 51"
  shows "step (world1\<lparr>regions := [(''region_0'', r)], event_history := evh\<rparr>)
              (env_at (gen2 42) (16 + 6 * m) m (2 * m) (2 / 3))
     = (Inl AttributeError,
        world1\<lparr>regions := [(''region_0'', event_cycle r)], event_history := evh @ [coldsnap2]\<rparr>,
        env_at (gen2 42) (16 + 6 * Suc m) (Suc m) (2 * Suc m) (2 / 3))"
  using step_coldsnap [where tp = "gen2 42" and i = "16 + 6 * m" and r = r and evh = evh and j = m
            and n = "2 * m", OF gen2_event_cycle [OF assms] conserve]
  by (simp add: event_cycle_def)

lemma steps_event_cycles:
  assumes "m + n \<le> 51"
  shows "steps n (world1\<lparr>regions := [(''region_0'', r)], event_history := evh\<rparr>)
               (env_at (gen2 42) (16 + 6 * m) m (2 * m) (2 / 3))
     = (world1\<lparr>regions := [(''region_0'', (event_cycle ^^ n) r)], event_history := evh @ replicate n coldsnap2\<rparr>,
        env_at (gen2 42) (16 + 6 * (m + n)) (m + n) (2 * (m + n)) (2 / 3))"
  using assms
proof (induction n arbitrary: m r evh)
  case 0
  then show ?case by simp
next
  case (Suc n)
  have m: "m < 51" using Suc.prems by simp
  have "Suc m + n \<le> 51" using Suc.prems by simp
  from Suc.IH [OF this, where r = "event_cycle r" and evh = "evh @ [coldsnap2]"]
  show ?case by (simp add: step_event_cycle [OF m] funpow_swap1 replicate_append_same)
qed

lemma steady_event_cycle: "steady g r \<Longrightarrow> steady (g - 1 / 50) (event_cycle r)"
  by (simp add: steady_def event_cycle_def update_basic_resources_def replenish_def deplete_def
        apply_event_def coldsnap2_def EVENT_TYPES_def pool_getattr_def pool_setattr_def
        apply_action_effects_def conserve_items_def Let_def)

lemma steady_event_cycles: "steady g r \<Longrightarrow> steady (g - real n / 50) ((event_cycle ^^ n) r)"
proof (induction n)
  case 0
  then show ?case by simp
next
  case (Suc n)
  from steady_event_cycle [OF Suc.IH [OF Suc.prems]]
  show ?case by (simp add: diff_divide_distrib add_divide_distrib algebra_simps)
qed


lemma steps_add: "steps (m + n) w s = (case steps m w s of (w', s') \<Rightarrow> steps n w' s')"
  by (induction m arbitrary: w s) (auto split: prod.splits)

lemma quiet_cycle_steady:
  assumes "steady g r"
  shows "food (resources (quiet_cycle r)) = 866 \<and> max_food (resources (quiet_cycle r)) = 2000 \<and>
         population (quiet_cycle r) = 110 \<and> development_level (quiet_cycle r) = 3 / 10 \<and>
         growth_rate (quiet_cycle r) = g - 1 / 50"
  using assms
  by (simp add: steady_def quiet_cycle_def update_basic_resources_def replenish_def deplete_def
        apply_action_effects_def conserve_items_def Let_def)

lemma quiet_cycle_negative:
  assumes "food (resources r) = 866" and "max_food (resources r) = 2000" and "population r = 110"
    and "development_level r = 3 / 10" and "growth_rate r = - (51 / 50)"
  shows "population (quiet_cycle r) = - 2"
  using assms
  by (simp add: quiet_cycle_def update_basic_resources_def replenish_def deplete_def
        apply_action_effects_def conserve_items_def Let_def py_int_def)

lemma step_quiet_cycle:
  assumes "322 \<le> i"
  shows "step (world1\<lparr>regions := [(''region_0'', r)], event_history := evh\<rparr>) (env_at (gen2 42) i j n (2 / 3))
     = (Inl AttributeError,
        world1\<lparr>regions := [(''region_0'', quiet_cycle r)], event_history := evh\<rparr>,
        env_at (gen2 42) (Suc (Suc i)) (Suc j) (Suc n) (2 / 3))"
proof -
  have a: "15 / 100 < gen2 42 i" "gen2 42 (Suc i) < 1" using assms by (simp_all add: gen2_def)
  show ?thesis
    using step_quiet [where tp = "gen2 42" and i = i and r = r and evh = evh and j = j and n = n,
            OF a conserve]
    by (simp add: quiet_cycle_def)
qed


text \<open>
  C4 (as stated, false). The population should stay non-negative over every sequence of
  \<open>step()\<close> calls. On the simulation built by \<open>WorldSimulation(num_regions=1, seed=42)\<close>
  on the generator \<open>gen2\<close>, the population is 110 at the start and \<open>-2\<close> after 53 calls:
  after 52 actions ``Conserve Resources'' the growth rate is \<open>-1.02\<close>, and in the 53rd
  cycle the food exceeds eight times the population, so the population becomes
  \<open>int(110 \<times> (1 - 1.02))\<close>.
\<close>

theorem population_negative_after_53_steps:
  "WorldSimulation_init gen2 1 42 (const_env 0 (2 / 3)) = (Inr world2, env2) \<and>
   populations world2 = [110] \<and>
   populations (fst (steps 53 world2 env2)) = [- 2]"
proof -
  let ?r51 = "(event_cycle ^^ 51) region2"
  have w2: "world2 = world1\<lparr>regions := [(''region_0'', region2)], event_history := []\<rparr>"
    by (simp add: world2_def world1_def)
  have e2: "env2 = env_at (gen2 42) (16 + 6 * 0) 0 (2 * 0) (2 / 3)"
    by (simp add: env2_def)
  have s51: "steps 51 world2 env2
     = (world1\<lparr>regions := [(''region_0'', ?r51)], event_history := [] @ replicate 51 coldsnap2\<rparr>,
        env_at (gen2 42) (16 + 6 * (0 + 51)) (0 + 51) (2 * (0 + 51)) (2 / 3))"
    unfolding w2 e2 by (rule steps_event_cycles) simp
  have "steady (1 / 50) region2"
    by (simp add: steady_def region2_def region1_def)
  from steady_event_cycles [OF this, of 51]
  have st: "steady (- 1) ?r51" by simp
  from quiet_cycle_steady [OF st]
  have q: "food (resources (quiet_cycle ?r51)) = 866" "max_food (resources (quiet_cycle ?r51)) = 2000"
    "population (quiet_cycle ?r51) = 110" "development_level (quiet_cycle ?r51) = 3 / 10"
    "growth_rate (quiet_cycle ?r51) = - (51 / 50)" by simp_all
  have neg: "population (quiet_cycle (quiet_cycle ?r51)) = - 2"
    by (rule quiet_cycle_negative [OF q])
  have "steps 53 world2 env2 = (case steps 51 world2 env2 of (w', s') \<Rightarrow> steps 2 w' s')"
    using steps_add [of 51 2 world2 env2] by simp
  then have "populations (fst (steps 53 world2 env2)) = [- 2]"
    by (simp add: s51 numeral_2_eq_2 step_quiet_cycle populations_def neg)
  moreover have "populations world2 = [110]"
    by (simp add: populations_def world2_def region2_def)
  ultimately show ?thesis by (simp add: init_world2)
qed


end
